theory Spec2Isabelle
  imports Main
begin

section \<open>Python values used by skia\_gold\_integration\_test\_base.py\<close>

text \<open>
  The module is Python. Attributes that may hold \<open>None\<close> are options, the dictionary of
  Gold keys is an association list in insertion order (all its keys are distinct), and
  every \<open>raise\<close>, including the implicit ones of the interpreter (\<open>TypeError\<close> of
  \<open>'ANGLE' not in None\<close>, \<open>IndexError\<close> of \<open>devices[0]\<close>, \<open>AttributeError\<close> of an attribute
  read on \<open>None\<close>), is a value of \<open>py_error\<close>. The source raises the builtin
  \<open>Exception\<close> with a message; the message is kept.
\<close>

datatype py_error = Exception string | TypeError | IndexError | AttributeError

text \<open>A Python string is a \<open>string\<close>, one \<open>char\<close> for each character the source counts
  with \<open>len\<close>.\<close>

text \<open>Truthiness, as \<open>if x\<close>, \<open>x and y\<close>, \<open>x or y\<close> and \<open>not x\<close> test it: \<open>None\<close>, the integer
  \<open>0\<close> and the empty string are false.\<close>

definition truthy_int :: "int option \<Rightarrow> bool" where
  "truthy_int v = (case v of None \<Rightarrow> False | Some n \<Rightarrow> n \<noteq> 0)"

definition truthy_str :: "string option \<Rightarrow> bool" where
  "truthy_str v = (case v of None \<Rightarrow> False | Some s \<Rightarrow> s \<noteq> [])"

text \<open>\<open>x or y\<close> for a string (or \<open>None\<close>) \<open>x\<close> and a string \<open>y\<close>.\<close>

definition py_or :: "string option \<Rightarrow> string \<Rightarrow> string" where
  "py_or x y = (case x of None \<Rightarrow> y | Some s \<Rightarrow> if s \<noteq> [] then s else y)"

subsection \<open>The builtins \<open>hex\<close>, \<open>str\<close>, \<open>in\<close>, \<open>split\<close> and \<open>join\<close>\<close>

definition hex_digit :: "nat \<Rightarrow> char" where
  "hex_digit d = ''0123456789abcdef'' ! d"

fun hex_digits :: "nat \<Rightarrow> string" where
  "hex_digits n =
     (if n < 16 then [hex_digit n] else hex_digits (n div 16) @ [hex_digit (n mod 16)])"

declare hex_digits.simps [simp del]

text \<open>\<open>hex(n)\<close>: a sign for a negative number, the prefix \<open>0x\<close>, the digits of \<open>|n|\<close>.\<close>

definition hex :: "int \<Rightarrow> string" where
  "hex n = (if n < 0 then ''-0x'' @ hex_digits (nat (- n)) else ''0x'' @ hex_digits (nat n))"

text \<open>The value a string of lowercase hexadecimal digits denotes, to state that
  \<open>hex_digits\<close> is the encoding it should be.\<close>

definition hex_digit_val :: "char \<Rightarrow> nat" where
  "hex_digit_val ch = length (takeWhile (\<lambda>d. d \<noteq> ch) ''0123456789abcdef'')"

definition hex_val :: "string \<Rightarrow> nat" where
  "hex_val s = foldl (\<lambda>acc ch. 16 * acc + hex_digit_val ch) 0 s"

text \<open>\<open>str(b)\<close> for a bool.\<close>

definition str_bool :: "bool \<Rightarrow> string" where
  "str_bool b = (if b then ''True'' else ''False'')"

text \<open>\<open>sub in s\<close> for strings: \<open>sub\<close> occurs in \<open>s\<close> as a contiguous substring.\<close>

fun str_contains :: "string \<Rightarrow> string \<Rightarrow> bool" where
  "str_contains sub [] = (sub = [])"
| "str_contains sub (c # cs) = (take (length sub) (c # cs) = sub \<or> str_contains sub cs)"

text \<open>\<open>s.split(sep)\<close> for a one-character separator: the pieces between the separators,
  at least one piece. The second case of the inner \<open>case\<close> is never reached, since the
  result is never empty.\<close>

fun str_split :: "char \<Rightarrow> string \<Rightarrow> string list" where
  "str_split sep [] = [[]]"
| "str_split sep (c # cs) =
     (if c = sep then [] # str_split sep cs
      else (case str_split sep cs of p # ps \<Rightarrow> (c # p) # ps | [] \<Rightarrow> [[c]]))"

text \<open>\<open>sep.join(parts)\<close>.\<close>

fun str_join :: "string \<Rightarrow> string list \<Rightarrow> string" where
  "str_join sep [] = []"
| "str_join sep [p] = p"
| "str_join sep (p # q # ps) = p @ sep @ str_join sep (q # ps)"

section \<open>The data of the module\<close>

text \<open>What the browser reports (telemetry's system info, an external collaborator): the
  attributes the module reads.\<close>

record device =
  vendor_id :: "int option"
  device_id :: "int option"
  vendor_string :: "string option"
  device_string :: "string option"
  driver_version :: "string option"
  driver_vendor :: "string option"

record gpu_info =
  devices :: "device list"
  driver_bug_workarounds :: "string list"

record system_info =
  gpu :: "gpu_info option"
  model_name :: "string option"

record platform =
  GetOSName :: "string option"
  GetOSVersionName :: "string option"
  GetOSVersionDetailString :: "string option"

record browser =
  GetSystemInfo :: "system_info option"
  platform :: platform

text \<open>A date is its proleptic Gregorian ordinal (\<open>date.toordinal()\<close>): Python orders dates
  as it orders their ordinals, and the day before \<open>d\<close> is \<open>d - 1\<close>.\<close>

type_synonym date = int

text \<open>The \<open>PixelTestPage\<close> of a test: the attributes the module reads.\<close>

record page =
  gpu_process_disabled :: bool
  grace_period_end :: "date option"
  matching_algorithm_GetCmdline :: "string list"

text \<open>The parsed command line options the module reads. The class requires them to be
  set with \<open>SetParsedCommandLineOptions\<close> before any test runs, so they are a record and
  not an option.\<close>

record options =
  no_skia_gold_failure :: bool

text \<open>Class \<open>_ImageParameters\<close> and its constructor.\<close>

record ImageParameters =
  vendor_id :: "int option"
  device_id :: "int option"
  vendor_string :: "string option"
  device_string :: "string option"
  msaa :: bool
  model_name :: "string option"
  driver_version :: "string option"
  driver_vendor :: "string option"

definition new_ImageParameters :: ImageParameters where
  "new_ImageParameters =
     \<lparr>vendor_id = None, device_id = None, vendor_string = None, device_string = None,
      msaa = False, model_name = None, driver_version = None, driver_vendor = None\<rparr>"

text \<open>The class-scoped state of \<open>SkiaGoldIntegrationTestBase\<close> the claims are about: the
  attribute \<open>_image_parameters\<close>, shared by all tests of a browser session.\<close>

record cls =
  image_parameters :: "ImageParameters option"

section \<open>The module-level helpers\<close>

definition ToHex :: "int \<Rightarrow> string" where
  "ToHex num = hex num"

definition ToHexOrNone :: "int option \<Rightarrow> string" where
  "ToHexOrNone num = (case num of None \<Rightarrow> ''None'' | Some n \<Rightarrow> ToHex n)"

text \<open>\<open>'None' if val == '' else str(val)\<close>: \<open>str(None)\<close> is \<open>'None'\<close> too.\<close>

definition ToNonEmptyStrOrNone :: "string option \<Rightarrow> string" where
  "ToNonEmptyStrOrNone val =
     (case val of None \<Rightarrow> ''None'' | Some s \<Rightarrow> if s = [] then ''None'' else s)"

text \<open>\<open>page.grace_period_end and date.today() <= page.grace_period_end\<close>, read as a truth
  value (both callers test it in an \<open>if\<close>); a date object is always true. The clock
  \<open>date.today()\<close> is the parameter \<open>today\<close>.\<close>

definition GracePeriodActive :: "date \<Rightarrow> page \<Rightarrow> bool" where
  "GracePeriodActive today pg =
     (case grace_period_end pg of None \<Rightarrow> False | Some end_date \<Rightarrow> today \<le> end_date)"

text \<open>The loop of \<open>_StripAngleRevisionFromDriver\<close>: parts are kept up to the first one
  longer than 8 characters, where the loop breaks.\<close>

fun kept_parts :: "string list \<Rightarrow> string list" where
  "kept_parts [] = []"
| "kept_parts (part # driver_parts) =
     (if length part > 8 then [] else part # kept_parts driver_parts)"

text \<open>\<open>_StripAngleRevisionFromDriver\<close> changes the object it is given; the model returns the
  changed object. \<open>'ANGLE' not in img_params.driver_vendor\<close> is evaluated first and raises
  \<open>TypeError\<close> when the vendor is \<open>None\<close>.\<close>

definition StripAngleRevisionFromDriver :: "ImageParameters \<Rightarrow> py_error + ImageParameters" where
  "StripAngleRevisionFromDriver img_params =
     (case driver_vendor img_params of
        None \<Rightarrow> Inl TypeError
      | Some vendor \<Rightarrow>
          if str_contains ''ANGLE'' vendor then
            (case driver_version img_params of
               None \<Rightarrow> Inr img_params
             | Some version \<Rightarrow>
                 if version = [] then Inr img_params
                 else Inr (img_params\<lparr>driver_version :=
                        Some (str_join ''.'' (kept_parts (str_split CHR ''.'' version)))\<rparr>))
          else Inr img_params)"

definition GetCombinedHardwareIdentifier :: "ImageParameters \<Rightarrow> string" where
  "GetCombinedHardwareIdentifier img_params =
     (let vendor_id = ToHexOrNone (vendor_id img_params);
          device_id = ToHexOrNone (device_id img_params);
          device_string = ToNonEmptyStrOrNone (device_string img_params)
      in ''vendor_id:'' @ vendor_id @ '', device_id:'' @ device_id @
         '', device_string:'' @ device_string)"

section \<open>The class methods on the cached image parameters\<close>

definition ResetGpuInfo :: "cls \<Rightarrow> cls" where
  "ResetGpuInfo c = c\<lparr>image_parameters := None\<rparr>"

text \<open>\<open>_ComputeGpuInfo\<close> returns nothing and writes \<open>cls._image_parameters\<close>. The fresh
  object is stored in the class attribute before the branches run, so the attribute
  stays set to it when the method raises for incomplete device information.\<close>

definition ComputeGpuInfo :: "cls \<Rightarrow> browser \<Rightarrow> page \<Rightarrow> (py_error + unit) \<times> cls" where
  "ComputeGpuInfo c br pg =
     (if image_parameters c \<noteq> None then (Inr (), c)
      else case GetSystemInfo br of
        None \<Rightarrow> (Inl (Exception ''System info must be supported by the browser''), c)
      | Some si \<Rightarrow>
         (case gpu si of
            None \<Rightarrow> (Inl (Exception ''GPU information was absent''), c)
          | Some g \<Rightarrow>
             (case devices g of
                [] \<Rightarrow> (Inl IndexError, c)
              | dev # _ \<Rightarrow>
                 let params = new_ImageParameters;
                     branch =
                       (if truthy_int (device.vendor_id dev) \<and> truthy_int (device.device_id dev)
                        then Inr (params\<lparr>vendor_id := device.vendor_id dev,
                                         device_id := device.device_id dev\<rparr>)
                        else if truthy_str (device.vendor_string dev) \<and>
                                truthy_str (device.device_string dev)
                        then Inr (params\<lparr>vendor_string := device.vendor_string dev,
                                         device_string := device.device_string dev\<rparr>)
                        else if gpu_process_disabled pg
                        then Inr (params\<lparr>vendor_id := Some 65535, device_id := Some 65535\<rparr>)
                        else Inl (Exception ''GPU device information was incomplete''))
                 in (case branch of
                      Inl e \<Rightarrow> (Inl e, c\<lparr>image_parameters := Some params\<rparr>)
                    | Inr params' \<Rightarrow>
                       (Inr (), c\<lparr>image_parameters := Some (params'
                          \<lparr>msaa := \<not> (''disable_chromium_framebuffer_multisample''
                                        \<in> set (driver_bug_workarounds g) \<or>
                                      ''disable_multisample_render_to_texture''
                                        \<in> set (driver_bug_workarounds g)),
                           model_name := system_info.model_name si,
                           driver_version := device.driver_version dev,
                           driver_vendor := device.driver_vendor dev\<rparr>)\<rparr>)))))"

text \<open>\<open>GetImageParameters\<close>: an \<open>_ImageParameters\<close> object is true, so the computation runs
  only when the attribute is \<open>None\<close>. The method returns the attribute, that is, a
  reference to the cached object.\<close>

definition GetImageParameters ::
  "cls \<Rightarrow> browser \<Rightarrow> page \<Rightarrow> (py_error + ImageParameters option) \<times> cls" where
  "GetImageParameters c br pg =
     (if image_parameters c = None then
        (case ComputeGpuInfo c br pg of
           (Inl e, c') \<Rightarrow> (Inl e, c')
         | (Inr _, c') \<Rightarrow> (Inr (image_parameters c'), c'))
      else (Inr (image_parameters c), c))"

text \<open>The dictionary literal that \<open>GetGoldJsonKeys\<close> assigns to \<open>gpu_keys\<close>, in the order it
  is written.\<close>

definition gpu_keys_literal :: "ImageParameters \<Rightarrow> browser \<Rightarrow> (string \<times> string) list" where
  "gpu_keys_literal img_params br =
     [(''vendor_id'', ToHexOrNone (vendor_id img_params)),
      (''device_id'', ToHexOrNone (device_id img_params)),
      (''vendor_string'', ToNonEmptyStrOrNone (vendor_string img_params)),
      (''device_string'', ToNonEmptyStrOrNone (device_string img_params)),
      (''msaa'', str_bool (msaa img_params)),
      (''model_name'', ToNonEmptyStrOrNone (model_name img_params)),
      (''os'', ToNonEmptyStrOrNone (GetOSName (platform br))),
      (''os_version'', ToNonEmptyStrOrNone (GetOSVersionName (platform br))),
      (''os_version_detail_string'',
         ToNonEmptyStrOrNone (GetOSVersionDetailString (platform br))),
      (''driver_version'', ToNonEmptyStrOrNone (driver_version img_params)),
      (''driver_vendor'', ToNonEmptyStrOrNone (driver_vendor img_params)),
      (''combined_hardware_identifier'', GetCombinedHardwareIdentifier img_params)]"

text \<open>\<open>GetGoldJsonKeys\<close>. \<open>img_params\<close> is the cached object itself, so what
  \<open>_StripAngleRevisionFromDriver\<close> writes to it is written to the class attribute. The
  key \<open>'ignore'\<close> is not in the literal, so the assignment appends the pair.\<close>

definition GetGoldJsonKeys ::
  "cls \<Rightarrow> browser \<Rightarrow> date \<Rightarrow> page \<Rightarrow> (py_error + (string \<times> string) list) \<times> cls" where
  "GetGoldJsonKeys c br today pg =
     (case GetImageParameters c br pg of
        (Inl e, c1) \<Rightarrow> (Inl e, c1)
      | (Inr None, c1) \<Rightarrow> (Inl AttributeError, c1)
      | (Inr (Some cached), c1) \<Rightarrow>
         (case StripAngleRevisionFromDriver cached of
            Inl e \<Rightarrow> (Inl e, c1)
          | Inr img_params \<Rightarrow>
             let gpu_keys = gpu_keys_literal img_params br
             in (Inr (if GracePeriodActive today pg then gpu_keys @ [(''ignore'', ''1'')]
                      else gpu_keys),
                 c1\<lparr>image_parameters := Some img_params\<rparr>)))"

definition ShouldReportGoldFailure :: "options \<Rightarrow> date \<Rightarrow> page \<Rightarrow> bool" where
  "ShouldReportGoldFailure parsed_options today pg =
     (if no_skia_gold_failure parsed_options then False
      else if GracePeriodActive today pg then False
      else True)"

section \<open>The outcome dispatcher\<close>

text \<open>The Gold session, its manager and the Gold properties are external collaborators
  (\<open>gpu_tests.skia_gold\<close>): each is the record of what its methods answer. The table
  \<open>StatusCodes\<close> of the session class is not part of the module either; it is a parameter,
  a record of the five codes the module compares with. The status \<open>RunComparison\<close>
  returns is an integer, false (\<open>not status\<close>) when it is \<open>0\<close>; its second component is
  the output of the tool, or \<open>None\<close>.\<close>

record status_codes =
  AUTH_FAILURE :: int
  INIT_FAILURE :: int
  COMPARISON_FAILURE_REMOTE :: int
  COMPARISON_FAILURE_LOCAL :: int
  LOCAL_DIFF_FAILURE :: int

record gold_session =
  RunComparison :: "string \<Rightarrow> string \<Rightarrow> string list \<Rightarrow> bool \<Rightarrow> int \<times> string option"
  GetTriageLinks :: "string \<Rightarrow> string option \<times> string option"
  GetTriageLinkOmissionReason :: "string \<Rightarrow> string option"
  GetGivenImageLink :: "string \<Rightarrow> string option"
  GetClosestImageLink :: "string \<Rightarrow> string option"
  GetDiffImageLink :: "string \<Rightarrow> string option"

record session_manager =
  GetSkiaGoldSession :: "(string \<times> string) list \<Rightarrow> string \<Rightarrow> gold_session"
  StatusCodes :: status_codes

record gold_properties =
  local_pixel_tests :: bool
  no_luci_auth :: bool
  IsTryjobRun :: bool

definition SKIA_GOLD_CORPUS :: string where
  "SKIA_GOLD_CORPUS = ''chrome-gpu''"

text \<open>What a run of the dispatcher leaves for the test runner to see: the calls of
  \<open>logging.error\<close> (format string and arguments, as the call passes them) and of
  \<open>artifacts.CreateLink\<close> (name and link), in program order.\<close>

datatype py_value = PyStr string | PyInt int | PyNone

definition py_of_str :: "string option \<Rightarrow> py_value" where
  "py_of_str v = (case v of None \<Rightarrow> PyNone | Some s \<Rightarrow> PyStr s)"

datatype event = LoggingError string "py_value list" | CreateLink string string

definition OutputLocalDiffFiles :: "gold_session \<Rightarrow> string \<Rightarrow> event list" where
  "OutputLocalDiffFiles session image_name =
     (let given_file = GetGivenImageLink session image_name;
          closest_file = GetClosestImageLink session image_name;
          diff_file = GetDiffImageLink session image_name;
          failure_message = ''Unable to retrieve link''
      in [LoggingError ''Generated image: %s'' [PyStr (py_or given_file failure_message)],
          LoggingError ''Closest image: %s'' [PyStr (py_or closest_file failure_message)],
          LoggingError ''Diff image: %s'' [PyStr (py_or diff_file failure_message)]])"

text \<open>The \<open>if\<close>/\<open>elif\<close> chain of \<open>_UploadTestResultToSkiaGold\<close> on a status that is not
  false: the events of the branch taken.\<close>

definition dispatch_status ::
  "status_codes \<Rightarrow> gold_session \<Rightarrow> gold_properties \<Rightarrow> string \<Rightarrow> int \<Rightarrow> string option
     \<Rightarrow> event list" where
  "dispatch_status codes session props image_name status error =
     (if status = AUTH_FAILURE codes then
        [LoggingError ''Gold authentication failed with output %s'' [py_of_str error]]
      else if status = INIT_FAILURE codes then
        [LoggingError ''Gold initialization failed with output %s'' [py_of_str error]]
      else if status = COMPARISON_FAILURE_REMOTE codes then
        (let no_triage_link =
               [LoggingError ''Failed to get triage link for %s, raw output: %s''
                  [PyStr image_name, py_of_str error],
                LoggingError ''Reason for no triage link: %s''
                  [py_of_str (GetTriageLinkOmissionReason session image_name)]]
         in (case snd (GetTriageLinks session image_name) of
               None \<Rightarrow> no_triage_link
             | Some triage_link \<Rightarrow>
                 if triage_link = [] then no_triage_link
                 else if IsTryjobRun props then
                   [CreateLink ''triage_link_for_entire_cl'' triage_link]
                 else
                   [CreateLink ''gold_triage_link'' triage_link]))
      else if status = COMPARISON_FAILURE_LOCAL codes then
        LoggingError ''Local comparison failed. Local diff files:'' []
          # OutputLocalDiffFiles session image_name
      else if status = LOCAL_DIFF_FAILURE codes then
        LoggingError (''Local comparison failed and an error occurred during diff ''
                      @ ''generation: %s'') [py_of_str error]
          # LoggingError ''Local diff files:'' []
          # OutputLocalDiffFiles session image_name
      else
        [LoggingError ''Given unhandled SkiaGoldSession StatusCode %s with error %s''
           [PyInt status, py_of_str error]])"

text \<open>\<open>_UploadTestResultToSkiaGold\<close>. The result is how the method ends (\<open>Inr ()\<close> for a
  return, \<open>Inl\<close> for the exception raised), the events emitted before it ended, and the
  class state. Writing the PNG file has no part in the model; \<open>png_temp_file\<close> is the
  name \<open>tempfile\<close> chose.\<close>

definition UploadTestResultToSkiaGold ::
  "cls \<Rightarrow> browser \<Rightarrow> date \<Rightarrow> options \<Rightarrow> session_manager \<Rightarrow> gold_properties
     \<Rightarrow> string \<Rightarrow> string \<Rightarrow> page \<Rightarrow> (py_error + unit) \<times> event list \<times> cls" where
  "UploadTestResultToSkiaGold c br today parsed_options manager props image_name
       png_temp_file pg =
     (case GetGoldJsonKeys c br today pg of
        (Inl e, c1) \<Rightarrow> (Inl e, [], c1)
      | (Inr gpu_keys, c1) \<Rightarrow>
         (let session = GetSkiaGoldSession manager gpu_keys SKIA_GOLD_CORPUS;
              use_luci = (\<not> (local_pixel_tests props \<or> no_luci_auth props));
              inexact_matching_args = matching_algorithm_GetCmdline pg;
              (status, error) = RunComparison session image_name png_temp_file
                                  inexact_matching_args use_luci
          in if status = 0 then (Inr (), [], c1)
             else
               (let emitted = dispatch_status (StatusCodes manager) session props
                                image_name status error
                in if ShouldReportGoldFailure parsed_options today pg
                   then (Inl (Exception ''goldctl command failed, see above for details''),
                         emitted, c1)
                   else (Inr (), emitted, c1))))"

subsection \<open>The dispatcher, statement by statement\<close>

text \<open>To state in which order things happen, \<open>_UploadTestResultToSkiaGold\<close> is also written
  as the sequence of its statements, each run against the list of the actions performed
  so far. An action is the emission of an event, the call of
  \<open>self._ShouldReportGoldFailure(page)\<close> with the value it returned, or the exception by
  which the method is left. A statement that ends in an exception stops the sequence:
  what follows it is not run.\<close>

datatype action = Emit event | Consult bool | Raise py_error

type_synonym 'a run = "action list \<Rightarrow> (py_error + 'a) \<times> action list"

definition emit :: "event \<Rightarrow> unit run" where
  "emit ev performed = (Inr (), performed @ [Emit ev])"

definition consult :: "bool \<Rightarrow> bool run" where
  "consult answer performed = (Inr answer, performed @ [Consult answer])"

definition raise_exception :: "py_error \<Rightarrow> unit run" where
  "raise_exception e performed = (Inl e, performed @ [Raise e])"

definition skip :: "unit run" where
  "skip performed = (Inr (), performed)"

definition then_do :: "'a run \<Rightarrow> ('a \<Rightarrow> 'b run) \<Rightarrow> 'b run" where
  "then_do first rest performed =
     (case first performed of
        (Inl e, performed') \<Rightarrow> (Inl e, performed')
      | (Inr x, performed') \<Rightarrow> rest x performed')"

definition OutputLocalDiffFiles_steps :: "gold_session \<Rightarrow> string \<Rightarrow> unit run" where
  "OutputLocalDiffFiles_steps session image_name =
     (let given_file = GetGivenImageLink session image_name;
          closest_file = GetClosestImageLink session image_name;
          diff_file = GetDiffImageLink session image_name;
          failure_message = ''Unable to retrieve link''
      in then_do
           (emit (LoggingError ''Generated image: %s''
                    [PyStr (py_or given_file failure_message)])) (\<lambda>_.
         then_do
           (emit (LoggingError ''Closest image: %s''
                    [PyStr (py_or closest_file failure_message)])) (\<lambda>_.
         emit (LoggingError ''Diff image: %s'' [PyStr (py_or diff_file failure_message)]))))"

definition dispatch_steps ::
  "status_codes \<Rightarrow> gold_session \<Rightarrow> gold_properties \<Rightarrow> string \<Rightarrow> int \<Rightarrow> string option
     \<Rightarrow> unit run" where
  "dispatch_steps codes session props image_name status error =
     (if status = AUTH_FAILURE codes then
        emit (LoggingError ''Gold authentication failed with output %s'' [py_of_str error])
      else if status = INIT_FAILURE codes then
        emit (LoggingError ''Gold initialization failed with output %s'' [py_of_str error])
      else if status = COMPARISON_FAILURE_REMOTE codes then
        (let no_triage_link =
               then_do
                 (emit (LoggingError ''Failed to get triage link for %s, raw output: %s''
                          [PyStr image_name, py_of_str error])) (\<lambda>_.
               emit (LoggingError ''Reason for no triage link: %s''
                       [py_of_str (GetTriageLinkOmissionReason session image_name)]))
         in (case snd (GetTriageLinks session image_name) of
               None \<Rightarrow> no_triage_link
             | Some triage_link \<Rightarrow>
                 if triage_link = [] then no_triage_link
                 else if IsTryjobRun props then
                   emit (CreateLink ''triage_link_for_entire_cl'' triage_link)
                 else
                   emit (CreateLink ''gold_triage_link'' triage_link)))
      else if status = COMPARISON_FAILURE_LOCAL codes then
        then_do
          (emit (LoggingError ''Local comparison failed. Local diff files:'' [])) (\<lambda>_.
        OutputLocalDiffFiles_steps session image_name)
      else if status = LOCAL_DIFF_FAILURE codes then
        then_do
          (emit (LoggingError (''Local comparison failed and an error occurred during diff ''
                               @ ''generation: %s'') [py_of_str error])) (\<lambda>_.
        then_do
          (emit (LoggingError ''Local diff files:'' [])) (\<lambda>_.
        OutputLocalDiffFiles_steps session image_name))
      else
        emit (LoggingError ''Given unhandled SkiaGoldSession StatusCode %s with error %s''
                [PyInt status, py_of_str error]))"

text \<open>The method: the result is how it ends, the actions performed in order, and the class
  state. An exception of \<open>GetGoldJsonKeys\<close> leaves the method at once.\<close>

definition UploadTestResultToSkiaGold_steps ::
  "cls \<Rightarrow> browser \<Rightarrow> date \<Rightarrow> options \<Rightarrow> session_manager \<Rightarrow> gold_properties
     \<Rightarrow> string \<Rightarrow> string \<Rightarrow> page \<Rightarrow> (py_error + unit) \<times> action list \<times> cls" where
  "UploadTestResultToSkiaGold_steps c br today parsed_options manager props image_name
       png_temp_file pg =
     (case GetGoldJsonKeys c br today pg of
        (Inl e, c1) \<Rightarrow> (Inl e, [Raise e], c1)
      | (Inr gpu_keys, c1) \<Rightarrow>
         (let session = GetSkiaGoldSession manager gpu_keys SKIA_GOLD_CORPUS;
              use_luci = (\<not> (local_pixel_tests props \<or> no_luci_auth props));
              inexact_matching_args = matching_algorithm_GetCmdline pg;
              (status, error) = RunComparison session image_name png_temp_file
                                  inexact_matching_args use_luci
          in if status = 0 then (Inr (), [], c1)
             else
               (case then_do
                       (dispatch_steps (StatusCodes manager) session props image_name
                          status error) (\<lambda>_.
                     then_do
                       (consult (ShouldReportGoldFailure parsed_options today pg)) (\<lambda>report.
                     if report then
                       raise_exception
                         (Exception ''goldctl command failed, see above for details'')
                     else skip))
                     [] of
                  (outcome, performed) \<Rightarrow> (outcome, performed, c1))))"

text \<open>The events among the actions of a run.\<close>

fun emitted_events :: "action list \<Rightarrow> event list" where
  "emitted_events [] = []"
| "emitted_events (Emit ev # acts) = ev # emitted_events acts"
| "emitted_events (Consult answer # acts) = emitted_events acts"
| "emitted_events (Raise e # acts) = emitted_events acts"

section \<open>Notions used to state the properties\<close>

text \<open>The artifact links among the events of a run.\<close>

fun artifact_links :: "event list \<Rightarrow> (string \<times> string) list" where
  "artifact_links [] = []"
| "artifact_links (CreateLink name link # evs) = (name, link) # artifact_links evs"
| "artifact_links (LoggingError fmt args # evs) = artifact_links evs"

text \<open>A lowercase hexadecimal literal as \<open>hex\<close> prints it: an optional minus sign, \<open>0x\<close>,
  and at least one digit among \<open>0123456789abcdef\<close>.\<close>

definition lower_hex_literal :: "string \<Rightarrow> bool" where
  "lower_hex_literal s =
     (let body = (if take 1 s = ''-'' then drop 1 s else s)
      in take 2 body = ''0x'' \<and> drop 2 body \<noteq> [] \<and>
         list_all (\<lambda>ch. ch \<in> set ''0123456789abcdef'') (drop 2 body))"

subsection \<open>Concrete inputs for the worked examples\<close>

definition intel_device :: device where
  "intel_device =
     \<lparr>device.vendor_id = Some 0x8086, device.device_id = Some 0x5912,
      device.vendor_string = Some ''Intel'', device.device_string = Some ''HD Graphics 630'',
      device.driver_version = Some ''2.1.0.b50541b2d6c4'',
      device.driver_vendor = Some ''Google Inc. (ANGLE)''\<rparr>"

definition adreno_device :: device where
  "adreno_device =
     \<lparr>device.vendor_id = Some 0, device.device_id = Some 0,
      device.vendor_string = Some ''Qualcomm'', device.device_string = Some ''Adreno (TM) 540'',
      device.driver_version = Some ''331.0'', device.driver_vendor = Some []\<rparr>"

definition blank_device :: device where
  "blank_device =
     \<lparr>device.vendor_id = Some 0, device.device_id = Some 0,
      device.vendor_string = Some [], device.device_string = Some [],
      device.driver_version = Some [], device.driver_vendor = Some []\<rparr>"

definition example_browser :: "device \<Rightarrow> browser" where
  "example_browser dev =
     \<lparr>GetSystemInfo =
        Some \<lparr>gpu = Some \<lparr>devices = [dev], driver_bug_workarounds = []\<rparr>,
              system_info.model_name = Some []\<rparr>,
      platform = \<lparr>GetOSName = Some ''linux'', GetOSVersionName = Some ''ubuntu'',
                  GetOSVersionDetailString = None\<rparr>\<rparr>"

definition example_page :: "bool \<Rightarrow> date option \<Rightarrow> page" where
  "example_page disabled end_date =
     \<lparr>gpu_process_disabled = disabled, grace_period_end = end_date,
      matching_algorithm_GetCmdline = []\<rparr>"

definition fresh_cls :: cls where
  "fresh_cls = \<lparr>image_parameters = None\<rparr>"

text \<open>The image parameters \<open>_ComputeGpuInfo\<close> computes for the Intel device.\<close>

definition intel_params :: ImageParameters where
  "intel_params =
     \<lparr>vendor_id = Some 0x8086, device_id = Some 0x5912,
      vendor_string = None, device_string = None, msaa = True, model_name = Some [],
      driver_version = Some ''2.1.0.b50541b2d6c4'',
      driver_vendor = Some ''Google Inc. (ANGLE)''\<rparr>"

definition angle_params :: ImageParameters where
  "angle_params = new_ImageParameters\<lparr>driver_version := Some ''2.1.0.b50541b2d6c4'',
                                       driver_vendor := Some ''Google Inc. (ANGLE)''\<rparr>"

definition nvidia_params :: ImageParameters where
  "nvidia_params = new_ImageParameters\<lparr>driver_version := Some ''27.21.14.5148000000'',
                                        driver_vendor := Some ''NVIDIA''\<rparr>"

definition empty_version_params :: ImageParameters where
  "empty_version_params = new_ImageParameters\<lparr>driver_version := Some [],
                                               driver_vendor := Some ''ANGLE''\<rparr>"

definition example_codes :: status_codes where
  "example_codes =
     \<lparr>AUTH_FAILURE = 1, INIT_FAILURE = 2, COMPARISON_FAILURE_REMOTE = 3,
      COMPARISON_FAILURE_LOCAL = 4, LOCAL_DIFF_FAILURE = 5\<rparr>"

definition example_session :: "int \<Rightarrow> string option \<Rightarrow> gold_session" where
  "example_session status link =
     \<lparr>RunComparison = (\<lambda>name png_file args use_luci. (status, Some ''goldctl output'')),
      GetTriageLinks = (\<lambda>name. (None, link)),
      GetTriageLinkOmissionReason = (\<lambda>name. Some ''Gold could not provide a link''),
      GetGivenImageLink = (\<lambda>name. None),
      GetClosestImageLink = (\<lambda>name. None),
      GetDiffImageLink = (\<lambda>name. None)\<rparr>"

definition example_manager :: "int \<Rightarrow> string option \<Rightarrow> session_manager" where
  "example_manager status link =
     \<lparr>GetSkiaGoldSession = (\<lambda>keys corpus. example_session status link),
      StatusCodes = example_codes\<rparr>"

definition example_props :: "bool \<Rightarrow> gold_properties" where
  "example_props tryjob =
     \<lparr>local_pixel_tests = False, no_luci_auth = False, IsTryjobRun = tryjob\<rparr>"

section \<open>Facts about the builtins\<close>

lemma str_split_not_Nil: "str_split sep s \<noteq> []"
  by (induction s) (auto split: list.splits)

lemma str_split_no_sep: "p \<in> set (str_split sep s) \<Longrightarrow> sep \<notin> set p"
  by (induction s arbitrary: p) (auto split: list.splits if_splits)

lemma str_split_single: "sep \<notin> set p \<Longrightarrow> str_split sep p = [p]"
  by (induction p) auto

lemma str_split_append:
  "sep \<notin> set p \<Longrightarrow> str_split sep (p @ sep # rest) = p # str_split sep rest"
  by (induction p) auto

text \<open>Splitting undoes joining when there is at least one part and no part holds the
  separator.\<close>

lemma str_split_join:
  "ps \<noteq> [] \<Longrightarrow> (\<And>p. p \<in> set ps \<Longrightarrow> sep \<notin> set p) \<Longrightarrow>
   str_split sep (str_join [sep] ps) = ps"
proof (induction "[sep]" ps rule: str_join.induct)
  case 1
  then show ?case by simp
next
  case (2 p)
  then show ?case by (simp add: str_split_single)
next
  case (3 p q ps)
  then show ?case by (simp add: str_split_append)
qed

section \<open>Facts about the truncation of the driver version\<close>

lemma kept_parts_subset: "p \<in> set (kept_parts ps) \<Longrightarrow> p \<in> set ps"
  by (induction ps arbitrary: p) (auto split: if_splits)

lemma kept_parts_idem: "kept_parts (kept_parts ps) = kept_parts ps"
  by (induction ps) auto

lemma strip_version_idem:
  fixes version :: string
  defines "v' \<equiv> str_join ''.'' (kept_parts (str_split CHR ''.'' version))"
  shows "v' = [] \<or> str_join ''.'' (kept_parts (str_split CHR ''.'' v')) = v'"
proof (cases "kept_parts (str_split CHR ''.'' version) = []")
  case True
  then show ?thesis by (simp add: v'_def)
next
  case False
  have "\<And>p. p \<in> set (kept_parts (str_split CHR ''.'' version)) \<Longrightarrow> CHR ''.'' \<notin> set p"
    using kept_parts_subset str_split_no_sep by blast
  with False have "str_split CHR ''.'' v' = kept_parts (str_split CHR ''.'' version)"
    unfolding v'_def by (rule str_split_join)
  then show ?thesis by (simp add: kept_parts_idem v'_def)
qed

lemma Strip_cases:
  assumes "driver_vendor p = Some vendor"
  shows "StripAngleRevisionFromDriver p =
           Inr (if str_contains ''ANGLE'' vendor \<and> truthy_str (driver_version p)
                then p\<lparr>driver_version :=
                        Some (str_join ''.''
                               (kept_parts (str_split CHR ''.'' (the (driver_version p)))))\<rparr>
                else p)"
  using assms
  by (simp add: StripAngleRevisionFromDriver_def truthy_str_def split: option.splits)

lemma Strip_vendor:
  "StripAngleRevisionFromDriver p = Inr p' \<Longrightarrow> driver_vendor p' = driver_vendor p"
  by (auto simp: StripAngleRevisionFromDriver_def split: option.splits if_splits)

lemma Strip_idem:
  assumes "StripAngleRevisionFromDriver p = Inr p'"
  shows "StripAngleRevisionFromDriver p' = Inr p'"
proof -
  from assms obtain vendor where v: "driver_vendor p = Some vendor"
    by (auto simp: StripAngleRevisionFromDriver_def split: option.splits)
  with assms have v': "driver_vendor p' = Some vendor"
    by (simp add: Strip_vendor)
  show ?thesis
  proof (cases "str_contains ''ANGLE'' vendor \<and> truthy_str (driver_version p)")
    case False
    with assms v have "p' = p" by (simp add: Strip_cases)
    with assms show ?thesis by simp
  next
    case True
    then obtain version where ver: "driver_version p = Some version" "version \<noteq> []"
      by (auto simp: truthy_str_def split: option.splits)
    define w where "w = str_join ''.'' (kept_parts (str_split CHR ''.'' version))"
    from assms v True ver have p': "p' = p\<lparr>driver_version := Some w\<rparr>"
      by (simp add: Strip_cases w_def)
    have "w = [] \<or> str_join ''.'' (kept_parts (str_split CHR ''.'' w)) = w"
      unfolding w_def by (rule strip_version_idem)
    then show ?thesis
      using v' p' by (auto simp: Strip_cases truthy_str_def)
  qed
qed

section \<open>Facts about the cached image parameters and the key builder\<close>

lemma Strip_frame:
  assumes "StripAngleRevisionFromDriver p = Inr p'"
  shows "p' = p\<lparr>driver_version := driver_version p'\<rparr>"
  using assms
  by (auto simp: StripAngleRevisionFromDriver_def split: option.splits if_splits)

lemma GetImageParameters_cached:
  "image_parameters c = Some p \<Longrightarrow> GetImageParameters c br pg = (Inr (Some p), c)"
  by (simp add: GetImageParameters_def)

lemma GetGoldJsonKeys_cached:
  assumes "image_parameters c = Some p"
  shows "GetGoldJsonKeys c br today pg =
           (case StripAngleRevisionFromDriver p of
              Inl e \<Rightarrow> (Inl e, c)
            | Inr img_params \<Rightarrow>
                (Inr (gpu_keys_literal img_params br @
                        (if GracePeriodActive today pg then [(''ignore'', ''1'')] else [])),
                 c\<lparr>image_parameters := Some img_params\<rparr>))"
  using assms unfolding GetGoldJsonKeys_def
  by (simp add: GetImageParameters_cached Let_def split: sum.splits)

lemma GetGoldJsonKeys_InrD:
  assumes "GetGoldJsonKeys c br today pg = (Inr keys, c')"
  shows "\<exists>cached c1 img_params.
           GetImageParameters c br pg = (Inr (Some cached), c1) \<and>
           StripAngleRevisionFromDriver cached = Inr img_params \<and>
           c' = c1\<lparr>image_parameters := Some img_params\<rparr> \<and>
           keys = gpu_keys_literal img_params br @
                  (if GracePeriodActive today pg then [(''ignore'', ''1'')] else [])"
  using assms unfolding GetGoldJsonKeys_def
  by (auto simp: Let_def split: prod.splits sum.splits option.splits if_splits)

lemma ComputeGpuInfo_fresh:
  assumes "image_parameters c = None" and "GetSystemInfo br = Some si" and "gpu si = Some g"
    and "devices g = dev # rest"
  shows "ComputeGpuInfo c br pg =
    (let rest_of_method = (\<lambda>params. params
           \<lparr>msaa := \<not> (''disable_chromium_framebuffer_multisample''
                         \<in> set (driver_bug_workarounds g) \<or>
                       ''disable_multisample_render_to_texture''
                         \<in> set (driver_bug_workarounds g)),
            model_name := system_info.model_name si,
            driver_version := device.driver_version dev,
            driver_vendor := device.driver_vendor dev\<rparr>)
     in if truthy_int (device.vendor_id dev) \<and> truthy_int (device.device_id dev)
        then (Inr (), c\<lparr>image_parameters := Some (rest_of_method (new_ImageParameters
                \<lparr>vendor_id := device.vendor_id dev, device_id := device.device_id dev\<rparr>))\<rparr>)
        else if truthy_str (device.vendor_string dev) \<and> truthy_str (device.device_string dev)
        then (Inr (), c\<lparr>image_parameters := Some (rest_of_method (new_ImageParameters
                \<lparr>vendor_string := device.vendor_string dev,
                 device_string := device.device_string dev\<rparr>))\<rparr>)
        else if gpu_process_disabled pg
        then (Inr (), c\<lparr>image_parameters := Some (rest_of_method (new_ImageParameters
                \<lparr>vendor_id := Some 65535, device_id := Some 65535\<rparr>))\<rparr>)
        else (Inl (Exception ''GPU device information was incomplete''),
              c\<lparr>image_parameters := Some new_ImageParameters\<rparr>))"
  using assms by (simp add: ComputeGpuInfo_def Let_def)

lemma GetGoldJsonKeys_after_compute:
  assumes "image_parameters c = None"
    and "ComputeGpuInfo c br pg = (Inr (), c\<lparr>image_parameters := Some P\<rparr>)"
    and "GetGoldJsonKeys c br today pg = (Inr keys, c')"
  shows "\<exists>img_params.
           StripAngleRevisionFromDriver P = Inr img_params \<and>
           keys = gpu_keys_literal img_params br @
                  (if GracePeriodActive today pg then [(''ignore'', ''1'')] else [])"
proof -
  from assms(1,2) have "GetImageParameters c br pg = (Inr (Some P), c\<lparr>image_parameters := Some P\<rparr>)"
    by (simp add: GetImageParameters_def)
  with GetGoldJsonKeys_InrD [OF assms(3)] show ?thesis by auto
qed

lemma GetGoldJsonKeys_compute_error:
  assumes "image_parameters c = None"
    and "ComputeGpuInfo c br pg = (Inl e, c1)"
  shows "GetGoldJsonKeys c br today pg = (Inl e, c1)"
  using assms by (simp add: GetGoldJsonKeys_def GetImageParameters_def)

lemma map_of_identity_keys:
  assumes "StripAngleRevisionFromDriver P = Inr img_params"
    and "keys = gpu_keys_literal img_params br @ extra"
  shows "map_of keys ''vendor_id'' = Some (ToHexOrNone (vendor_id P))"
    and "map_of keys ''device_id'' = Some (ToHexOrNone (device_id P))"
    and "map_of keys ''vendor_string'' = Some (ToNonEmptyStrOrNone (vendor_string P))"
    and "map_of keys ''device_string'' = Some (ToNonEmptyStrOrNone (device_string P))"
proof -
  from Strip_frame [OF assms(1)]
  have "vendor_id img_params = vendor_id P" "device_id img_params = device_id P"
    "vendor_string img_params = vendor_string P" "device_string img_params = device_string P"
    by (metis ImageParameters.select_convs ImageParameters.surjective ImageParameters.update_convs)+
  then show "map_of keys ''vendor_id'' = Some (ToHexOrNone (vendor_id P))"
    and "map_of keys ''device_id'' = Some (ToHexOrNone (device_id P))"
    and "map_of keys ''vendor_string'' = Some (ToNonEmptyStrOrNone (vendor_string P))"
    and "map_of keys ''device_string'' = Some (ToNonEmptyStrOrNone (device_string P))"
    by (simp_all add: assms(2) gpu_keys_literal_def)
qed

lemma hex_65535: "hex 65535 = ''0xffff''"
  by (simp add: hex_def hex_digits.simps hex_digit_def)

section \<open>Facts about the dispatcher\<close>

lemma Upload_nonpass:
  assumes "GetGoldJsonKeys c br today pg = (Inr gpu_keys, c1)"
    and "RunComparison (GetSkiaGoldSession manager gpu_keys SKIA_GOLD_CORPUS) image_name
           png_temp_file (matching_algorithm_GetCmdline pg)
           (\<not> (local_pixel_tests props \<or> no_luci_auth props)) = (status, error)"
    and "status \<noteq> 0"
  shows "UploadTestResultToSkiaGold c br today parsed_options manager props image_name
           png_temp_file pg =
         (if ShouldReportGoldFailure parsed_options today pg
          then Inl (Exception ''goldctl command failed, see above for details'')
          else Inr (),
          dispatch_status (StatusCodes manager)
            (GetSkiaGoldSession manager gpu_keys SKIA_GOLD_CORPUS) props image_name status error,
          c1)"
  using assms by (simp add: UploadTestResultToSkiaGold_def Let_def)

lemma OutputLocalDiffFiles_not_Nil: "OutputLocalDiffFiles session image_name \<noteq> []"
  by (simp add: OutputLocalDiffFiles_def Let_def)

lemma dispatch_status_not_Nil:
  "dispatch_status codes session props image_name status error \<noteq> []"
  by (simp add: dispatch_status_def Let_def split: option.splits)

lemma then_do_emit:
  "then_do (emit ev) rest performed = rest () (performed @ [Emit ev])"
  by (simp add: then_do_def emit_def)

lemma OutputLocalDiffFiles_steps_eq:
  "OutputLocalDiffFiles_steps session image_name performed =
     (Inr (), performed @ map Emit (OutputLocalDiffFiles session image_name))"
  by (simp add: OutputLocalDiffFiles_steps_def OutputLocalDiffFiles_def Let_def then_do_emit
      emit_def)

lemma dispatch_steps_eq:
  "dispatch_steps codes session props image_name status error performed =
     (Inr (), performed @
        map Emit (dispatch_status codes session props image_name status error))"
  by (simp add: dispatch_steps_def dispatch_status_def Let_def then_do_emit emit_def
      OutputLocalDiffFiles_steps_eq split: option.splits)

lemma emitted_events_map_Emit: "emitted_events (map Emit evs @ acts) = evs @ emitted_events acts"
  by (induction evs) simp_all

text \<open>The branch of the chain for each status, with its events written out.\<close>

lemma dispatch_status_flat:
  "dispatch_status codes session props image_name status error =
     (if status = AUTH_FAILURE codes then
        [LoggingError ''Gold authentication failed with output %s'' [py_of_str error]]
      else if status = INIT_FAILURE codes then
        [LoggingError ''Gold initialization failed with output %s'' [py_of_str error]]
      else if status = COMPARISON_FAILURE_REMOTE codes then
        (if \<not> truthy_str (snd (GetTriageLinks session image_name)) then
           [LoggingError ''Failed to get triage link for %s, raw output: %s''
              [PyStr image_name, py_of_str error],
            LoggingError ''Reason for no triage link: %s''
              [py_of_str (GetTriageLinkOmissionReason session image_name)]]
         else
           [CreateLink (if IsTryjobRun props then ''triage_link_for_entire_cl''
                        else ''gold_triage_link'')
              (the (snd (GetTriageLinks session image_name)))])
      else if status = COMPARISON_FAILURE_LOCAL codes then
        [LoggingError ''Local comparison failed. Local diff files:'' [],
         LoggingError ''Generated image: %s''
           [PyStr (py_or (GetGivenImageLink session image_name) ''Unable to retrieve link'')],
         LoggingError ''Closest image: %s''
           [PyStr (py_or (GetClosestImageLink session image_name) ''Unable to retrieve link'')],
         LoggingError ''Diff image: %s''
           [PyStr (py_or (GetDiffImageLink session image_name) ''Unable to retrieve link'')]]
      else if status = LOCAL_DIFF_FAILURE codes then
        [LoggingError
           ''Local comparison failed and an error occurred during diff generation: %s''
           [py_of_str error],
         LoggingError ''Local diff files:'' [],
         LoggingError ''Generated image: %s''
           [PyStr (py_or (GetGivenImageLink session image_name) ''Unable to retrieve link'')],
         LoggingError ''Closest image: %s''
           [PyStr (py_or (GetClosestImageLink session image_name) ''Unable to retrieve link'')],
         LoggingError ''Diff image: %s''
           [PyStr (py_or (GetDiffImageLink session image_name) ''Unable to retrieve link'')]]
      else
        [LoggingError ''Given unhandled SkiaGoldSession StatusCode %s with error %s''
           [PyInt status, py_of_str error]])"
  by (simp add: dispatch_status_def OutputLocalDiffFiles_def Let_def truthy_str_def
      split: option.splits)

lemma Upload_steps_nonpass:
  assumes "GetGoldJsonKeys c br today pg = (Inr gpu_keys, c1)"
    and "RunComparison (GetSkiaGoldSession manager gpu_keys SKIA_GOLD_CORPUS) image_name
           png_temp_file (matching_algorithm_GetCmdline pg)
           (\<not> (local_pixel_tests props \<or> no_luci_auth props)) = (status, error)"
    and "status \<noteq> 0"
  shows "UploadTestResultToSkiaGold_steps c br today parsed_options manager props image_name
           png_temp_file pg =
         (if ShouldReportGoldFailure parsed_options today pg
          then Inl (Exception ''goldctl command failed, see above for details'')
          else Inr (),
          map Emit (dispatch_status (StatusCodes manager)
                      (GetSkiaGoldSession manager gpu_keys SKIA_GOLD_CORPUS) props image_name
                      status error)
          @ Consult (ShouldReportGoldFailure parsed_options today pg)
          # (if ShouldReportGoldFailure parsed_options today pg
             then [Raise (Exception ''goldctl command failed, see above for details'')]
             else []),
          c1)"
  using assms
  by (simp add: UploadTestResultToSkiaGold_steps_def Let_def then_do_def dispatch_steps_eq
      consult_def raise_exception_def skip_def)

text \<open>The two ways of writing the method agree: same end, same events, same state.\<close>

lemma Upload_steps_agree:
  "UploadTestResultToSkiaGold c br today parsed_options manager props image_name
     png_temp_file pg =
   (case UploadTestResultToSkiaGold_steps c br today parsed_options manager props image_name
           png_temp_file pg of
      (outcome, performed, c1) \<Rightarrow> (outcome, emitted_events performed, c1))"
  by (simp add: UploadTestResultToSkiaGold_def UploadTestResultToSkiaGold_steps_def Let_def
      then_do_def dispatch_steps_eq consult_def raise_exception_def skip_def
      emitted_events_map_Emit split: prod.splits sum.splits)

section \<open>The worked examples, evaluated\<close>

lemmas example_defs = fresh_cls_def example_browser_def intel_device_def adreno_device_def
  blank_device_def example_page_def example_codes_def example_session_def example_manager_def
  example_props_def

lemmas method_defs = GetGoldJsonKeys_def GetImageParameters_def ComputeGpuInfo_def
  new_ImageParameters_def truthy_int_def truthy_str_def StripAngleRevisionFromDriver_def
  gpu_keys_literal_def ToHexOrNone_def ToHex_def hex_def hex_digits.simps hex_digit_def
  ToNonEmptyStrOrNone_def str_bool_def GracePeriodActive_def GetCombinedHardwareIdentifier_def
  Let_def

lemma intel_keys:
  "GetGoldJsonKeys fresh_cls (example_browser intel_device) 100 (example_page False (Some 99)) =
     (Inr [(''vendor_id'', ''0x8086''), (''device_id'', ''0x5912''),
           (''vendor_string'', ''None''), (''device_string'', ''None''),
           (''msaa'', ''True''), (''model_name'', ''None''),
           (''os'', ''linux''), (''os_version'', ''ubuntu''),
           (''os_version_detail_string'', ''None''),
           (''driver_version'', ''2.1.0''), (''driver_vendor'', ''Google Inc. (ANGLE)''),
           (''combined_hardware_identifier'',
            ''vendor_id:0x8086, device_id:0x5912, device_string:None'')],
      \<lparr>image_parameters = Some
         \<lparr>vendor_id = Some 0x8086, device_id = Some 0x5912,
          vendor_string = None, device_string = None, msaa = True,
          model_name = Some [], driver_version = Some ''2.1.0'',
          driver_vendor = Some ''Google Inc. (ANGLE)''\<rparr>\<rparr>)"
  by (simp add: method_defs example_defs)

lemma adreno_keys:
  "GetGoldJsonKeys fresh_cls (example_browser adreno_device) 100 (example_page False (Some 100)) =
     (Inr [(''vendor_id'', ''None''), (''device_id'', ''None''),
           (''vendor_string'', ''Qualcomm''), (''device_string'', ''Adreno (TM) 540''),
           (''msaa'', ''True''), (''model_name'', ''None''),
           (''os'', ''linux''), (''os_version'', ''ubuntu''),
           (''os_version_detail_string'', ''None''),
           (''driver_version'', ''331.0''), (''driver_vendor'', ''None''),
           (''combined_hardware_identifier'',
            ''vendor_id:None, device_id:None, device_string:Adreno (TM) 540''),
           (''ignore'', ''1'')],
      \<lparr>image_parameters = Some
         \<lparr>vendor_id = None, device_id = None,
          vendor_string = Some ''Qualcomm'', device_string = Some ''Adreno (TM) 540'',
          msaa = True, model_name = Some [], driver_version = Some ''331.0'',
          driver_vendor = Some []\<rparr>\<rparr>)"
  by (simp add: method_defs example_defs)

lemma blank_keys:
  "GetGoldJsonKeys fresh_cls (example_browser blank_device) 100 (example_page True None) =
     (Inr [(''vendor_id'', ''0xffff''), (''device_id'', ''0xffff''),
           (''vendor_string'', ''None''), (''device_string'', ''None''),
           (''msaa'', ''True''), (''model_name'', ''None''),
           (''os'', ''linux''), (''os_version'', ''ubuntu''),
           (''os_version_detail_string'', ''None''),
           (''driver_version'', ''None''), (''driver_vendor'', ''None''),
           (''combined_hardware_identifier'',
            ''vendor_id:0xffff, device_id:0xffff, device_string:None'')],
      \<lparr>image_parameters = Some
         \<lparr>vendor_id = Some 65535, device_id = Some 65535,
          vendor_string = None, device_string = None,
          msaa = True, model_name = Some [], driver_version = Some [],
          driver_vendor = Some []\<rparr>\<rparr>)"
  by (simp add: method_defs example_defs)

lemma example_browser_parts:
  "image_parameters fresh_cls = None"
  "GetSystemInfo (example_browser dev) =
     Some \<lparr>gpu = Some \<lparr>devices = [dev], driver_bug_workarounds = []\<rparr>,
           system_info.model_name = Some []\<rparr>"
  "gpu \<lparr>gpu = Some \<lparr>devices = [dev], driver_bug_workarounds = []\<rparr>,
        system_info.model_name = Some []\<rparr>
     = Some \<lparr>devices = [dev], driver_bug_workarounds = []\<rparr>"
  "devices \<lparr>devices = [dev], driver_bug_workarounds = []\<rparr> = dev # []"
  by (simp_all add: fresh_cls_def example_browser_def)

lemma example_run:
  "RunComparison (GetSkiaGoldSession (example_manager status link) keys SKIA_GOLD_CORPUS)
     image_name png_temp_file (matching_algorithm_GetCmdline pg)
     (\<not> (local_pixel_tests (example_props tryjob) \<or> no_luci_auth (example_props tryjob)))
   = (status, Some ''goldctl output'')"
  by (simp add: example_defs)

lemma example_codes_remote:
  "(3::int) \<noteq> 0"
  "3 \<noteq> AUTH_FAILURE (StatusCodes (example_manager 3 link))"
  "3 \<noteq> INIT_FAILURE (StatusCodes (example_manager 3 link))"
  "3 = COMPARISON_FAILURE_REMOTE (StatusCodes (example_manager 3 link))"
  by (simp_all add: example_defs)

lemma example_triage_link:
  "snd (GetTriageLinks (GetSkiaGoldSession (example_manager status link) keys corpus) name)
     = link"
  "GetTriageLinkOmissionReason (GetSkiaGoldSession (example_manager status link) keys corpus)
     name = Some ''Gold could not provide a link''"
  "IsTryjobRun (example_props tryjob) = tryjob"
  by (simp_all add: example_defs)

lemma example_session_answers:
  "StatusCodes (example_manager status link) = example_codes"
  "GetGivenImageLink (GetSkiaGoldSession (example_manager status link) keys corpus) name = None"
  "GetClosestImageLink (GetSkiaGoldSession (example_manager status link) keys corpus) name
     = None"
  "GetDiffImageLink (GetSkiaGoldSession (example_manager status link) keys corpus) name = None"
  by (simp_all add: example_defs)

section \<open>Facts about \<open>hex\<close>\<close>

lemma hex_digit_cases:
  fixes k :: nat
  assumes "k < 16"
  shows "k = 0 \<or> k = 1 \<or> k = 2 \<or> k = 3 \<or> k = 4 \<or> k = 5 \<or> k = 6 \<or> k = 7 \<or>
         k = 8 \<or> k = 9 \<or> k = 10 \<or> k = 11 \<or> k = 12 \<or> k = 13 \<or> k = 14 \<or> k = 15"
  using assms by arith

lemma hex_digit_in: "k < 16 \<Longrightarrow> hex_digit k \<in> set ''0123456789abcdef''"
  unfolding hex_digit_def by (rule nth_mem) simp

lemma hex_digit_val_hex_digit: "k < 16 \<Longrightarrow> hex_digit_val (hex_digit k) = k"
  using hex_digit_cases [of k] by (auto simp: hex_digit_def hex_digit_val_def)

lemma hex_digits_not_Nil: "hex_digits n \<noteq> []"
  by (subst hex_digits.simps) simp

lemma hex_digits_lower: "list_all (\<lambda>ch. ch \<in> set ''0123456789abcdef'') (hex_digits n)"
proof (induction n rule: hex_digits.induct)
  case (1 n)
  show ?case
  proof (cases "n < 16")
    case True
    then show ?thesis by (subst hex_digits.simps) (simp add: hex_digit_in del: set_simps)
  next
    case False
    have "n mod 16 < 16" by simp
    with False 1 show ?thesis
      by (subst hex_digits.simps) (simp add: hex_digit_in del: set_simps)
  qed
qed

lemma hex_val_snoc: "hex_val (s @ [ch]) = 16 * hex_val s + hex_digit_val ch"
  by (simp add: hex_val_def)

lemma hex_val_hex_digits: "hex_val (hex_digits n) = n"
proof (induction n rule: hex_digits.induct)
  case (1 n)
  show ?case
  proof (cases "n < 16")
    case True
    then show ?thesis
      by (subst hex_digits.simps) (simp add: hex_val_def hex_digit_val_hex_digit)
  next
    case False
    have "n mod 16 < 16" by simp
    with False 1 show ?thesis
      by (subst hex_digits.simps) (simp add: hex_val_snoc hex_digit_val_hex_digit)
  qed
qed

lemma hex_not_Nil: "hex n \<noteq> []"
  by (simp add: hex_def)

lemma lower_hex_literal_hex: "lower_hex_literal (hex n)"
  using hex_digits_lower [of "nat n"] hex_digits_lower [of "nat (- n)"]
  by (simp add: lower_hex_literal_def hex_def hex_digits_not_Nil del: set_simps)

lemma hex_digits_of_hex:
  "hex n = (if n < 0 then ''-0x'' else ''0x'') @ hex_digits (nat \<bar>n\<bar>)"
  by (simp add: hex_def)

section \<open>Facts about the values of the key set\<close>

lemma ToHexOrNone_not_Nil: "ToHexOrNone num \<noteq> []" "[] \<noteq> ToHexOrNone num"
  by (simp_all add: ToHexOrNone_def ToHex_def hex_def split: option.splits)

lemma ToNonEmptyStrOrNone_not_Nil:
  "ToNonEmptyStrOrNone val \<noteq> []" "[] \<noteq> ToNonEmptyStrOrNone val"
  by (auto simp: ToNonEmptyStrOrNone_def split: option.splits)

lemma ToNonEmptyStrOrNone_cases:
  "ToNonEmptyStrOrNone val = (if val = None \<or> val = Some [] then ''None'' else the val)"
  by (simp add: ToNonEmptyStrOrNone_def split: option.splits)

lemma str_bool_not_Nil: "str_bool b \<noteq> []" "[] \<noteq> str_bool b"
  by (simp_all add: str_bool_def)

lemma GetCombinedHardwareIdentifier_not_Nil:
  "GetCombinedHardwareIdentifier img_params \<noteq> []"
  "[] \<noteq> GetCombinedHardwareIdentifier img_params"
  by (simp_all add: GetCombinedHardwareIdentifier_def Let_def)

lemma literal_values_not_Nil: "(k, []) \<notin> set (gpu_keys_literal img_params br)"
  by (auto simp: gpu_keys_literal_def ToHexOrNone_not_Nil ToNonEmptyStrOrNone_not_Nil
      str_bool_not_Nil GetCombinedHardwareIdentifier_not_Nil)

lemma map_of_literal:
  "map_of (gpu_keys_literal p br @ extra) ''vendor_id'' = Some (ToHexOrNone (vendor_id p))"
  "map_of (gpu_keys_literal p br @ extra) ''device_id'' = Some (ToHexOrNone (device_id p))"
  "map_of (gpu_keys_literal p br @ extra) ''vendor_string''
     = Some (ToNonEmptyStrOrNone (vendor_string p))"
  "map_of (gpu_keys_literal p br @ extra) ''device_string''
     = Some (ToNonEmptyStrOrNone (device_string p))"
  "map_of (gpu_keys_literal p br @ extra) ''msaa'' = Some (str_bool (msaa p))"
  "map_of (gpu_keys_literal p br @ extra) ''model_name''
     = Some (ToNonEmptyStrOrNone (model_name p))"
  "map_of (gpu_keys_literal p br @ extra) ''os''
     = Some (ToNonEmptyStrOrNone (GetOSName (platform br)))"
  "map_of (gpu_keys_literal p br @ extra) ''os_version''
     = Some (ToNonEmptyStrOrNone (GetOSVersionName (platform br)))"
  "map_of (gpu_keys_literal p br @ extra) ''os_version_detail_string''
     = Some (ToNonEmptyStrOrNone (GetOSVersionDetailString (platform br)))"
  "map_of (gpu_keys_literal p br @ extra) ''driver_version''
     = Some (ToNonEmptyStrOrNone (driver_version p))"
  "map_of (gpu_keys_literal p br @ extra) ''driver_vendor''
     = Some (ToNonEmptyStrOrNone (driver_vendor p))"
  "map_of (gpu_keys_literal p br @ extra) ''combined_hardware_identifier''
     = Some (GetCombinedHardwareIdentifier p)"
  by (simp_all add: gpu_keys_literal_def)

lemma map_of_ignore_literal: "map_of (gpu_keys_literal img_params br) ''ignore'' = None"
  by (simp add: gpu_keys_literal_def)

lemma ignore_not_in_literal: "(''ignore'', v) \<notin> set (gpu_keys_literal img_params br)"
  by (simp add: gpu_keys_literal_def)


section \<open>The precedence of the identity sources\<close>

text \<open>
  Claim C1. When \<open>_ComputeGpuInfo\<close> computes the image parameters (the class attribute is
  \<open>None\<close>, the browser reports system information with GPU information and at least one
  device), the identity source is chosen from the first device by a fixed four-way
  precedence. An id or a string is present when the source's own test holds for it, that
  is, when it is true in Python: not \<open>None\<close>, and not \<open>0\<close> (not the empty string).
  \<^item> Vendor id and device id both present: they are stored, the strings stay \<open>None\<close>, and
    the key set gives them as \<open>hex\<close> prints them, with \<open>'None'\<close> for both strings.
  \<^item> Otherwise, vendor string and device string both present: they are stored and
    emitted, and both ids are \<open>'None'\<close>.
  \<^item> Otherwise, GPU process disabled: both ids are 65535, emitted as \<open>0xffff\<close>.
  \<^item> Otherwise the method raises an exception with the message
    \<open>GPU device information was incomplete\<close>, and so does \<open>GetGoldJsonKeys\<close>.
  The source raises the builtin \<open>Exception\<close>; the specification calls it a
  ConfigurationError.
\<close>

theorem ComputeGpuInfo_precedence:
  assumes "image_parameters c = None" and "GetSystemInfo br = Some si" and "gpu si = Some g"
    and "devices g = dev # rest"
  shows
    "if truthy_int (device.vendor_id dev) \<and> truthy_int (device.device_id dev) then
       (\<exists>P. ComputeGpuInfo c br pg = (Inr (), c\<lparr>image_parameters := Some P\<rparr>) \<and>
            vendor_id P = device.vendor_id dev \<and> device_id P = device.device_id dev \<and>
            vendor_string P = None \<and> device_string P = None) \<and>
       (\<forall>today keys c'. GetGoldJsonKeys c br today pg = (Inr keys, c') \<longrightarrow>
            map_of keys ''vendor_id'' = Some (hex (the (device.vendor_id dev))) \<and>
            map_of keys ''device_id'' = Some (hex (the (device.device_id dev))) \<and>
            map_of keys ''vendor_string'' = Some ''None'' \<and>
            map_of keys ''device_string'' = Some ''None'')
     else if truthy_str (device.vendor_string dev) \<and> truthy_str (device.device_string dev) then
       (\<exists>P. ComputeGpuInfo c br pg = (Inr (), c\<lparr>image_parameters := Some P\<rparr>) \<and>
            vendor_id P = None \<and> device_id P = None \<and>
            vendor_string P = device.vendor_string dev \<and>
            device_string P = device.device_string dev) \<and>
       (\<forall>today keys c'. GetGoldJsonKeys c br today pg = (Inr keys, c') \<longrightarrow>
            map_of keys ''vendor_id'' = Some ''None'' \<and>
            map_of keys ''device_id'' = Some ''None'' \<and>
            map_of keys ''vendor_string'' = Some (the (device.vendor_string dev)) \<and>
            map_of keys ''device_string'' = Some (the (device.device_string dev)))
     else if gpu_process_disabled pg then
       (\<exists>P. ComputeGpuInfo c br pg = (Inr (), c\<lparr>image_parameters := Some P\<rparr>) \<and>
            vendor_id P = Some 65535 \<and> device_id P = Some 65535 \<and>
            vendor_string P = None \<and> device_string P = None) \<and>
       (\<forall>today keys c'. GetGoldJsonKeys c br today pg = (Inr keys, c') \<longrightarrow>
            map_of keys ''vendor_id'' = Some ''0xffff'' \<and>
            map_of keys ''device_id'' = Some ''0xffff'' \<and>
            map_of keys ''vendor_string'' = Some ''None'' \<and>
            map_of keys ''device_string'' = Some ''None'')
     else
       ComputeGpuInfo c br pg =
         (Inl (Exception ''GPU device information was incomplete''),
          c\<lparr>image_parameters := Some new_ImageParameters\<rparr>) \<and>
       (\<forall>today. fst (GetGoldJsonKeys c br today pg)
                  = Inl (Exception ''GPU device information was incomplete''))"
proof -
  note fresh = ComputeGpuInfo_fresh [OF assms, of pg]
  note keys = GetGoldJsonKeys_after_compute [OF assms(1)]
  consider
    (ids) "truthy_int (device.vendor_id dev) \<and> truthy_int (device.device_id dev)"
  | (strings) "\<not> (truthy_int (device.vendor_id dev) \<and> truthy_int (device.device_id dev))"
      "truthy_str (device.vendor_string dev) \<and> truthy_str (device.device_string dev)"
  | (sentinel) "\<not> (truthy_int (device.vendor_id dev) \<and> truthy_int (device.device_id dev))"
      "\<not> (truthy_str (device.vendor_string dev) \<and> truthy_str (device.device_string dev))"
      "gpu_process_disabled pg"
  | (incomplete) "\<not> (truthy_int (device.vendor_id dev) \<and> truthy_int (device.device_id dev))"
      "\<not> (truthy_str (device.vendor_string dev) \<and> truthy_str (device.device_string dev))"
      "\<not> gpu_process_disabled pg"
    by blast
  then show ?thesis
  proof cases
    case ids
    then obtain v d where vd: "device.vendor_id dev = Some v" "device.device_id dev = Some d"
      by (auto simp: truthy_int_def split: option.splits)
    from fresh ids obtain P where
      P: "ComputeGpuInfo c br pg = (Inr (), c\<lparr>image_parameters := Some P\<rparr>)"
        "vendor_id P = Some v" "device_id P = Some d"
        "vendor_string P = None" "device_string P = None"
      by (simp add: Let_def new_ImageParameters_def vd)
    have "map_of keys ''vendor_id'' = Some (hex v) \<and> map_of keys ''device_id'' = Some (hex d) \<and>
          map_of keys ''vendor_string'' = Some ''None'' \<and>
          map_of keys ''device_string'' = Some ''None''"
      if "GetGoldJsonKeys c br today pg = (Inr keys, c')" for today keys c'
      using keys [OF P(1) that] map_of_identity_keys [of P _ keys br] P(2-5)
      by (auto simp: ToHexOrNone_def ToHex_def ToNonEmptyStrOrNone_def)
    with ids P vd show ?thesis by auto
  next
    case strings
    then obtain vs ds where vd: "device.vendor_string dev = Some vs" "vs \<noteq> []"
        "device.device_string dev = Some ds" "ds \<noteq> []"
      by (auto simp: truthy_str_def split: option.splits)
    from fresh strings obtain P where
      P: "ComputeGpuInfo c br pg = (Inr (), c\<lparr>image_parameters := Some P\<rparr>)"
        "vendor_id P = None" "device_id P = None"
        "vendor_string P = Some vs" "device_string P = Some ds"
      by (simp add: Let_def new_ImageParameters_def vd)
    have "map_of keys ''vendor_id'' = Some ''None'' \<and> map_of keys ''device_id'' = Some ''None'' \<and>
          map_of keys ''vendor_string'' = Some vs \<and> map_of keys ''device_string'' = Some ds"
      if "GetGoldJsonKeys c br today pg = (Inr keys, c')" for today keys c'
      using keys [OF P(1) that] map_of_identity_keys [of P _ keys br] P(2-5) vd
      by (auto simp: ToHexOrNone_def ToNonEmptyStrOrNone_def)
    with strings P vd show ?thesis by auto
  next
    case sentinel
    from fresh sentinel obtain P where
      P: "ComputeGpuInfo c br pg = (Inr (), c\<lparr>image_parameters := Some P\<rparr>)"
        "vendor_id P = Some 65535" "device_id P = Some 65535"
        "vendor_string P = None" "device_string P = None"
      by (simp add: Let_def new_ImageParameters_def)
    have "map_of keys ''vendor_id'' = Some ''0xffff'' \<and>
          map_of keys ''device_id'' = Some ''0xffff'' \<and>
          map_of keys ''vendor_string'' = Some ''None'' \<and>
          map_of keys ''device_string'' = Some ''None''"
      if "GetGoldJsonKeys c br today pg = (Inr keys, c')" for today keys c'
      using keys [OF P(1) that] map_of_identity_keys [of P _ keys br] P(2-5)
      by (auto simp: ToHexOrNone_def ToHex_def hex_65535 ToNonEmptyStrOrNone_def)
    with sentinel P show ?thesis by auto
  next
    case incomplete
    with fresh have E: "ComputeGpuInfo c br pg =
         (Inl (Exception ''GPU device information was incomplete''),
          c\<lparr>image_parameters := Some new_ImageParameters\<rparr>)"
      by (simp add: Let_def)
    from GetGoldJsonKeys_compute_error [OF assms(1) E] E incomplete
    show ?thesis by simp
  qed
qed

text \<open>The four branches on the worked examples: an Intel device with both ids, a device
  that reports zero ids and both strings, a blank device with the GPU process disabled,
  and the same blank device with the GPU process enabled.\<close>

theorem ComputeGpuInfo_precedence_witness:
  "(\<exists>keys c'. GetGoldJsonKeys fresh_cls (example_browser intel_device) 100
                 (example_page False (Some 99)) = (Inr keys, c') \<and>
       map_of keys ''vendor_id'' = Some ''0x8086'' \<and>
       map_of keys ''device_id'' = Some ''0x5912'' \<and>
       map_of keys ''vendor_string'' = Some ''None'') \<and>
   (\<exists>keys c'. GetGoldJsonKeys fresh_cls (example_browser adreno_device) 100
                 (example_page False (Some 100)) = (Inr keys, c') \<and>
       map_of keys ''vendor_id'' = Some ''None'' \<and>
       map_of keys ''vendor_string'' = Some ''Qualcomm'' \<and>
       map_of keys ''device_string'' = Some ''Adreno (TM) 540'') \<and>
   (\<exists>keys c'. GetGoldJsonKeys fresh_cls (example_browser blank_device) 100
                 (example_page True None) = (Inr keys, c') \<and>
       map_of keys ''vendor_id'' = Some ''0xffff'' \<and>
       map_of keys ''device_id'' = Some ''0xffff'') \<and>
   fst (GetGoldJsonKeys fresh_cls (example_browser blank_device) 100 (example_page False None))
     = Inl (Exception ''GPU device information was incomplete'')"
proof -
  note T = ComputeGpuInfo_precedence [OF example_browser_parts]
  have hex_ids: "hex 32902 = ''0x8086''" "hex 22802 = ''0x5912''"
    by (simp_all add: hex_def hex_digits.simps hex_digit_def)
  from T [where dev = intel_device and pg = "example_page False (Some 99)"]
  have "\<forall>today keys c'.
          GetGoldJsonKeys fresh_cls (example_browser intel_device) today
            (example_page False (Some 99)) = (Inr keys, c') \<longrightarrow>
          map_of keys ''vendor_id'' = Some (hex 32902) \<and>
          map_of keys ''device_id'' = Some (hex 22802) \<and>
          map_of keys ''vendor_string'' = Some ''None'' \<and>
          map_of keys ''device_string'' = Some ''None''"
    by (simp add: intel_device_def truthy_int_def)
  with intel_keys hex_ids have a: "\<exists>keys c'.
      GetGoldJsonKeys fresh_cls (example_browser intel_device) 100
        (example_page False (Some 99)) = (Inr keys, c') \<and>
      map_of keys ''vendor_id'' = Some ''0x8086'' \<and>
      map_of keys ''device_id'' = Some ''0x5912'' \<and>
      map_of keys ''vendor_string'' = Some ''None''"
    by metis
  from T [where dev = adreno_device and pg = "example_page False (Some 100)"]
  have "\<forall>today keys c'.
          GetGoldJsonKeys fresh_cls (example_browser adreno_device) today
            (example_page False (Some 100)) = (Inr keys, c') \<longrightarrow>
          map_of keys ''vendor_id'' = Some ''None'' \<and>
          map_of keys ''device_id'' = Some ''None'' \<and>
          map_of keys ''vendor_string'' = Some ''Qualcomm'' \<and>
          map_of keys ''device_string'' = Some ''Adreno (TM) 540''"
    by (simp add: adreno_device_def truthy_int_def truthy_str_def)
  with adreno_keys have b: "\<exists>keys c'.
      GetGoldJsonKeys fresh_cls (example_browser adreno_device) 100
        (example_page False (Some 100)) = (Inr keys, c') \<and>
      map_of keys ''vendor_id'' = Some ''None'' \<and>
      map_of keys ''vendor_string'' = Some ''Qualcomm'' \<and>
      map_of keys ''device_string'' = Some ''Adreno (TM) 540''"
    by metis
  from T [where dev = blank_device and pg = "example_page True None"]
  have "\<forall>today keys c'.
          GetGoldJsonKeys fresh_cls (example_browser blank_device) today
            (example_page True None) = (Inr keys, c') \<longrightarrow>
          map_of keys ''vendor_id'' = Some ''0xffff'' \<and>
          map_of keys ''device_id'' = Some ''0xffff'' \<and>
          map_of keys ''vendor_string'' = Some ''None'' \<and>
          map_of keys ''device_string'' = Some ''None''"
    by (simp add: blank_device_def truthy_int_def truthy_str_def example_page_def)
  with blank_keys have c: "\<exists>keys c'.
      GetGoldJsonKeys fresh_cls (example_browser blank_device) 100
        (example_page True None) = (Inr keys, c') \<and>
      map_of keys ''vendor_id'' = Some ''0xffff'' \<and>
      map_of keys ''device_id'' = Some ''0xffff''"
    by metis
  from T [where dev = blank_device and pg = "example_page False None"]
  have d: "fst (GetGoldJsonKeys fresh_cls (example_browser blank_device) 100
                 (example_page False None))
             = Inl (Exception ''GPU device information was incomplete'')"
    by (simp add: blank_device_def truthy_int_def truthy_str_def example_page_def)
  from a b c d show ?thesis by blast
qed

section \<open>The grace period and the suppression policy\<close>

text \<open>
  Claim C2. \<open>_ShouldReportGoldFailure\<close> does not look at the comparison outcome. It
  returns false whenever \<open>no_skia_gold_failure\<close> is set, whatever the grace period. When
  the option is unset and the grace period is inactive it returns true, and then
  \<open>_UploadTestResultToSkiaGold\<close> ends, for every status that is not false, by raising the
  exception with the fixed message \<open>goldctl command failed, see above for details\<close>.
\<close>

theorem ShouldReportGoldFailure_policy:
  "(no_skia_gold_failure parsed_options \<longrightarrow>
      \<not> ShouldReportGoldFailure parsed_options today pg) \<and>
   (\<not> no_skia_gold_failure parsed_options \<and> \<not> GracePeriodActive today pg \<longrightarrow>
      ShouldReportGoldFailure parsed_options today pg \<and>
      (\<forall>c br manager props image_name png_temp_file gpu_keys c1 status error.
         GetGoldJsonKeys c br today pg = (Inr gpu_keys, c1) \<and>
         RunComparison (GetSkiaGoldSession manager gpu_keys SKIA_GOLD_CORPUS) image_name
           png_temp_file (matching_algorithm_GetCmdline pg)
           (\<not> (local_pixel_tests props \<or> no_luci_auth props)) = (status, error) \<and>
         status \<noteq> 0 \<longrightarrow>
         fst (UploadTestResultToSkiaGold c br today parsed_options manager props image_name
                png_temp_file pg)
           = Inl (Exception ''goldctl command failed, see above for details'')))"
  by (auto simp: Upload_nonpass ShouldReportGoldFailure_def)

theorem ShouldReportGoldFailure_policy_witness:
  "\<not> ShouldReportGoldFailure \<lparr>no_skia_gold_failure = True\<rparr> 100 (example_page False None) \<and>
   \<not> ShouldReportGoldFailure \<lparr>no_skia_gold_failure = True\<rparr> 100 (example_page False (Some 100)) \<and>
   ShouldReportGoldFailure \<lparr>no_skia_gold_failure = False\<rparr> 100 (example_page False (Some 99)) \<and>
   fst (UploadTestResultToSkiaGold fresh_cls (example_browser intel_device) 100
          \<lparr>no_skia_gold_failure = False\<rparr> (example_manager 1 None) (example_props False)
          ''pixel_test'' ''/tmp/pixel_test.png'' (example_page False (Some 99)))
     = Inl (Exception ''goldctl command failed, see above for details'')"
proof -
  have on: "no_skia_gold_failure \<lparr>no_skia_gold_failure = True\<rparr>" by simp
  have off: "\<not> no_skia_gold_failure \<lparr>no_skia_gold_failure = False\<rparr> \<and>
             \<not> GracePeriodActive 100 (example_page False (Some 99))"
    by (simp add: GracePeriodActive_def example_page_def)
  have run: "RunComparison (GetSkiaGoldSession (example_manager 1 None) keys SKIA_GOLD_CORPUS)
               ''pixel_test'' ''/tmp/pixel_test.png''
               (matching_algorithm_GetCmdline (example_page False (Some 99)))
               (\<not> (local_pixel_tests (example_props False) \<or> no_luci_auth (example_props False)))
             = (1, Some ''goldctl output'')" for keys
    by (simp add: example_defs)
  have one: "(1::int) \<noteq> 0" by simp
  from ShouldReportGoldFailure_policy
         [of "\<lparr>no_skia_gold_failure = True\<rparr>" 100 "example_page False None"] on
  have a: "\<not> ShouldReportGoldFailure \<lparr>no_skia_gold_failure = True\<rparr> 100 (example_page False None)"
    by blast
  from ShouldReportGoldFailure_policy
         [of "\<lparr>no_skia_gold_failure = True\<rparr>" 100 "example_page False (Some 100)"] on
  have b: "\<not> ShouldReportGoldFailure \<lparr>no_skia_gold_failure = True\<rparr> 100
               (example_page False (Some 100))"
    by blast
  from ShouldReportGoldFailure_policy
         [of "\<lparr>no_skia_gold_failure = False\<rparr>" 100 "example_page False (Some 99)"] off
  have c: "ShouldReportGoldFailure \<lparr>no_skia_gold_failure = False\<rparr> 100
             (example_page False (Some 99))"
    and d: "\<And>c br manager props image_name png_temp_file gpu_keys c1 status error.
         GetGoldJsonKeys c br 100 (example_page False (Some 99)) = (Inr gpu_keys, c1) \<Longrightarrow>
         RunComparison (GetSkiaGoldSession manager gpu_keys SKIA_GOLD_CORPUS) image_name
           png_temp_file (matching_algorithm_GetCmdline (example_page False (Some 99)))
           (\<not> (local_pixel_tests props \<or> no_luci_auth props)) = (status, error) \<Longrightarrow>
         status \<noteq> 0 \<Longrightarrow>
         fst (UploadTestResultToSkiaGold c br 100 \<lparr>no_skia_gold_failure = False\<rparr> manager props
                image_name png_temp_file (example_page False (Some 99)))
           = Inl (Exception ''goldctl command failed, see above for details'')"
    by blast+
  from d [OF intel_keys run one] a b c show ?thesis by simp
qed

text \<open>
  Claim C3. A grace period is active exactly when an end date is present and today's
  date is on or before it. With the end date equal to today the period is active and
  \<open>_ShouldReportGoldFailure\<close> returns false; with the end date equal to yesterday the
  period is over and \<open>_ShouldReportGoldFailure\<close> returns true exactly when the option
  \<open>no_skia_gold_failure\<close> is unset.
\<close>

theorem GracePeriodActive_boundary:
  "GracePeriodActive today pg = (\<exists>end_date. grace_period_end pg = Some end_date \<and> today \<le> end_date) \<and>
   GracePeriodActive today (pg\<lparr>grace_period_end := Some today\<rparr>) \<and>
   \<not> GracePeriodActive today (pg\<lparr>grace_period_end := Some (today - 1)\<rparr>) \<and>
   \<not> ShouldReportGoldFailure parsed_options today (pg\<lparr>grace_period_end := Some today\<rparr>) \<and>
   ShouldReportGoldFailure parsed_options today (pg\<lparr>grace_period_end := Some (today - 1)\<rparr>)
     = (\<not> no_skia_gold_failure parsed_options)"
  by (auto simp: GracePeriodActive_def ShouldReportGoldFailure_def split: option.splits)

theorem GracePeriodActive_boundary_witness:
  "GracePeriodActive 738000 (example_page False (Some 738000)) \<and>
   \<not> GracePeriodActive 738000 (example_page False (Some 737999)) \<and>
   \<not> ShouldReportGoldFailure \<lparr>no_skia_gold_failure = False\<rparr> 738000
        (example_page False (Some 738000)) \<and>
   ShouldReportGoldFailure \<lparr>no_skia_gold_failure = False\<rparr> 738000
        (example_page False (Some 737999))"
  using GracePeriodActive_boundary [of 738000 "example_page False None"
          "\<lparr>no_skia_gold_failure = False\<rparr>"]
  by (simp add: example_page_def)

section \<open>The truncation of the driver version is idempotent\<close>

text \<open>
  Claim C4. \<open>_StripAngleRevisionFromDriver\<close> is idempotent: whenever the driver vendor is a
  string, the transform returns an object on which a second application changes nothing.
  It changes nothing at all when the vendor string does not contain \<open>ANGLE\<close>, and nothing
  when the driver version is the empty string (or \<open>None\<close>).
\<close>

theorem StripAngleRevisionFromDriver_idempotent:
  assumes "driver_vendor p = Some vendor"
  shows "(\<exists>p'. StripAngleRevisionFromDriver p = Inr p' \<and>
               StripAngleRevisionFromDriver p' = Inr p') \<and>
         (\<not> str_contains ''ANGLE'' vendor \<longrightarrow> StripAngleRevisionFromDriver p = Inr p) \<and>
         (\<not> truthy_str (driver_version p) \<longrightarrow> StripAngleRevisionFromDriver p = Inr p)"
proof -
  obtain p' where p': "StripAngleRevisionFromDriver p = Inr p'"
    using assms by (simp add: Strip_cases)
  then have "StripAngleRevisionFromDriver p' = Inr p'" by (rule Strip_idem)
  with p' show ?thesis using assms by (auto simp: Strip_cases)
qed

text \<open>The example of the docstring, \<open>2.1.0.b50541b2d6c4\<close>, becomes \<open>2.1.0\<close> and then stays;
  an NVIDIA version with a long part and an empty ANGLE version are left as they are.\<close>

theorem StripAngleRevisionFromDriver_idempotent_witness:
  "StripAngleRevisionFromDriver angle_params
     = Inr (angle_params\<lparr>driver_version := Some ''2.1.0''\<rparr>) \<and>
   StripAngleRevisionFromDriver (angle_params\<lparr>driver_version := Some ''2.1.0''\<rparr>)
     = Inr (angle_params\<lparr>driver_version := Some ''2.1.0''\<rparr>) \<and>
   StripAngleRevisionFromDriver nvidia_params = Inr nvidia_params \<and>
   StripAngleRevisionFromDriver empty_version_params = Inr empty_version_params"
proof -
  have a: "driver_vendor angle_params = Some ''Google Inc. (ANGLE)''"
    by (simp add: angle_params_def)
  have a1: "StripAngleRevisionFromDriver angle_params
              = Inr (angle_params\<lparr>driver_version := Some ''2.1.0''\<rparr>)"
    by (simp add: StripAngleRevisionFromDriver_def angle_params_def)
  from StripAngleRevisionFromDriver_idempotent [OF a] a1
  have a2: "StripAngleRevisionFromDriver (angle_params\<lparr>driver_version := Some ''2.1.0''\<rparr>)
              = Inr (angle_params\<lparr>driver_version := Some ''2.1.0''\<rparr>)"
    by auto
  have n: "driver_vendor nvidia_params = Some ''NVIDIA''"
    by (simp add: nvidia_params_def)
  have n1: "\<not> str_contains ''ANGLE'' ''NVIDIA''" by simp
  from StripAngleRevisionFromDriver_idempotent [OF n] n1
  have n2: "StripAngleRevisionFromDriver nvidia_params = Inr nvidia_params" by blast
  have e: "driver_vendor empty_version_params = Some ''ANGLE''"
    by (simp add: empty_version_params_def)
  have e1: "\<not> truthy_str (driver_version empty_version_params)"
    by (simp add: empty_version_params_def truthy_str_def)
  from StripAngleRevisionFromDriver_idempotent [OF e] e1
  have e2: "StripAngleRevisionFromDriver empty_version_params = Inr empty_version_params"
    by blast
  from a1 a2 n2 e2 show ?thesis by simp
qed

section \<open>The cached image parameters between resets\<close>

text \<open>
  Claim C5 says that, once computed, the cached identity is never changed in place by
  the accessor or by the key-set builder. The key-set builder does change it:
  \<open>GetGoldJsonKeys\<close> passes the cached object to \<open>_StripAngleRevisionFromDriver\<close>, whose
  docstring says that it modifies the string in place. For the Intel example the
  accessor caches the driver version \<open>2.1.0.b50541b2d6c4\<close>, and after one call of the
  key-set builder the cached object holds \<open>2.1.0\<close>.
\<close>

theorem cached_identity_mutated_by_key_builder:
  "GetImageParameters fresh_cls (example_browser intel_device) (example_page False None)
     = (Inr (Some intel_params), \<lparr>image_parameters = Some intel_params\<rparr>) \<and>
   snd (GetGoldJsonKeys \<lparr>image_parameters = Some intel_params\<rparr>
          (example_browser intel_device) 100 (example_page False None))
     = \<lparr>image_parameters = Some (intel_params\<lparr>driver_version := Some ''2.1.0''\<rparr>)\<rparr> \<and>
   driver_version intel_params = Some ''2.1.0.b50541b2d6c4'' \<and>
   intel_params\<lparr>driver_version := Some ''2.1.0''\<rparr> \<noteq> intel_params"
  by (simp add: method_defs example_defs intel_params_def)

text \<open>
  Claim C5, amended. With image parameters cached, \<open>_ComputeGpuInfo\<close> and the accessor
  \<open>GetImageParameters\<close> leave the class state as it is and the accessor returns the cached
  object. \<open>GetGoldJsonKeys\<close> changes no field of the cached object other than the driver
  version, which becomes what \<open>_StripAngleRevisionFromDriver\<close> makes of it; after a call
  of \<open>GetGoldJsonKeys\<close> that returned a key set, every later call of the accessor or of
  \<open>GetGoldJsonKeys\<close> leaves every field unchanged. None of them clears the cache; the
  explicit \<open>ResetGpuInfo\<close> does.
\<close>

theorem cached_identity_frame:
  assumes "image_parameters c = Some p"
  shows "ComputeGpuInfo c br pg = (Inr (), c) \<and>
         GetImageParameters c br pg = (Inr (Some p), c) \<and>
         (\<exists>version. snd (GetGoldJsonKeys c br today pg)
                      = c\<lparr>image_parameters := Some (p\<lparr>driver_version := version\<rparr>)\<rparr>) \<and>
         (\<forall>p'. StripAngleRevisionFromDriver p = Inr p' \<longrightarrow>
               snd (GetGoldJsonKeys c br today pg) = c\<lparr>image_parameters := Some p'\<rparr>) \<and>
         (\<forall>keys c'. GetGoldJsonKeys c br today pg = (Inr keys, c') \<longrightarrow>
               (\<forall>br' today' pg'. snd (GetImageParameters c' br' pg') = c' \<and>
                                 snd (GetGoldJsonKeys c' br' today' pg') = c')) \<and>
         image_parameters (ResetGpuInfo c) = None"
proof -
  have compute: "ComputeGpuInfo c br pg = (Inr (), c)"
    using assms by (simp add: ComputeGpuInfo_def)
  have accessor: "GetImageParameters c br pg = (Inr (Some p), c)"
    using assms by (rule GetImageParameters_cached)
  note builder = GetGoldJsonKeys_cached [OF assms, of br today pg]
  have same: "c\<lparr>image_parameters := Some p\<rparr> = c"
    using assms by simp
  have frame: "\<exists>version. snd (GetGoldJsonKeys c br today pg)
                      = c\<lparr>image_parameters := Some (p\<lparr>driver_version := version\<rparr>)\<rparr>"
  proof (cases "StripAngleRevisionFromDriver p")
    case (Inl e)
    with builder same have "snd (GetGoldJsonKeys c br today pg)
        = c\<lparr>image_parameters := Some (p\<lparr>driver_version := driver_version p\<rparr>)\<rparr>"
      by simp
    then show ?thesis ..
  next
    case (Inr p')
    from Strip_frame [OF Inr] builder Inr
    have "snd (GetGoldJsonKeys c br today pg)
        = c\<lparr>image_parameters := Some (p\<lparr>driver_version := driver_version p'\<rparr>)\<rparr>"
      by simp
    then show ?thesis ..
  qed
  have stripped: "\<forall>p'. StripAngleRevisionFromDriver p = Inr p' \<longrightarrow>
               snd (GetGoldJsonKeys c br today pg) = c\<lparr>image_parameters := Some p'\<rparr>"
    using builder by simp
  have later: "snd (GetImageParameters c' br' pg') = c' \<and>
               snd (GetGoldJsonKeys c' br' today' pg') = c'"
    if k: "GetGoldJsonKeys c br today pg = (Inr keys, c')" for keys c' br' today' pg'
  proof -
    from k builder obtain p' where
      p': "StripAngleRevisionFromDriver p = Inr p'" "c' = c\<lparr>image_parameters := Some p'\<rparr>"
      by (cases "StripAngleRevisionFromDriver p") auto
    then have cached: "image_parameters c' = Some p'" by simp
    from Strip_idem [OF p'(1)] GetGoldJsonKeys_cached [OF cached, of br' today' pg']
      GetImageParameters_cached [OF cached, of br' pg'] p'(2)
    show ?thesis by simp
  qed
  have reset: "image_parameters (ResetGpuInfo c) = None"
    by (simp add: ResetGpuInfo_def)
  from compute accessor frame stripped later reset show ?thesis by blast
qed

theorem cached_identity_frame_witness:
  "GetImageParameters \<lparr>image_parameters = Some intel_params\<rparr>
     (example_browser intel_device) (example_page False None)
     = (Inr (Some intel_params), \<lparr>image_parameters = Some intel_params\<rparr>) \<and>
   snd (GetGoldJsonKeys \<lparr>image_parameters = Some intel_params\<rparr>
          (example_browser intel_device) 100 (example_page False None))
     = \<lparr>image_parameters = Some (intel_params\<lparr>driver_version := Some ''2.1.0''\<rparr>)\<rparr> \<and>
   snd (GetGoldJsonKeys
          \<lparr>image_parameters = Some (intel_params\<lparr>driver_version := Some ''2.1.0''\<rparr>)\<rparr>
          (example_browser intel_device) 101 (example_page False None))
     = \<lparr>image_parameters = Some (intel_params\<lparr>driver_version := Some ''2.1.0''\<rparr>)\<rparr> \<and>
   image_parameters (ResetGpuInfo \<lparr>image_parameters = Some intel_params\<rparr>) = None"
proof -
  let ?c = "\<lparr>image_parameters = Some intel_params\<rparr>"
  let ?c' = "\<lparr>image_parameters = Some (intel_params\<lparr>driver_version := Some ''2.1.0''\<rparr>)\<rparr>"
  have cached: "image_parameters ?c = Some intel_params" by simp
  have strip: "StripAngleRevisionFromDriver intel_params
                 = Inr (intel_params\<lparr>driver_version := Some ''2.1.0''\<rparr>)"
    by (simp add: StripAngleRevisionFromDriver_def intel_params_def)
  note T = cached_identity_frame [OF cached, of "example_browser intel_device"
             "example_page False None" 100]
  from T have a: "GetImageParameters ?c (example_browser intel_device) (example_page False None)
                    = (Inr (Some intel_params), ?c)"
    by blast
  from T strip have b: "snd (GetGoldJsonKeys ?c (example_browser intel_device) 100
                               (example_page False None)) = ?c'"
    by simp
  obtain keys where k: "GetGoldJsonKeys ?c (example_browser intel_device) 100
                          (example_page False None) = (Inr keys, ?c')"
    using GetGoldJsonKeys_cached [OF cached, of "example_browser intel_device" 100
            "example_page False None"] strip
    by simp
  from T k have c: "snd (GetGoldJsonKeys ?c' (example_browser intel_device) 101
                           (example_page False None)) = ?c'"
    by blast
  from T have d: "image_parameters (ResetGpuInfo ?c) = None"
    by blast
  from a b c d show ?thesis by blast
qed

section \<open>Diagnostics come before the failure\<close>

text \<open>
  Claim C6. Take a run of \<open>_UploadTestResultToSkiaGold\<close> in which the comparison returned a
  status that is not false, and let \<open>diagnostics\<close> be the events of that status: the
  error logged for an authentication or initialization failure; for a remote mismatch
  the two errors of a missing triage link or else the one link artifact; for a local
  mismatch the line announcing the local diff files and the lines for the generated,
  closest and diff images; for a failed local diff the error, the announcement and the
  same three lines; for any other status the line with the status and the output. There
  is at least one. For every value of the parsed options the actions of the run are, in
  this order: all the diagnostics, then the call of \<open>_ShouldReportGoldFailure\<close>, then, only
  when that call returned true, the exception with the fixed message. So the policy is
  consulted only after every diagnostic of the outcome has been emitted, the failure is
  never raised without them, and a suppressed failure leaves the same diagnostics behind.
  The events of the method written as one expression are these diagnostics as well.
\<close>

theorem diagnostics_before_failure:
  fixes manager :: session_manager and gpu_keys :: "(string \<times> string) list"
    and props :: gold_properties and image_name :: string
    and status :: int and error :: "string option"
  defines "session \<equiv> GetSkiaGoldSession manager gpu_keys SKIA_GOLD_CORPUS"
    and "codes \<equiv> StatusCodes manager"
    and "failure \<equiv> Exception ''goldctl command failed, see above for details''"
  defines "diagnostics \<equiv>
     (if status = AUTH_FAILURE codes then
        [LoggingError ''Gold authentication failed with output %s'' [py_of_str error]]
      else if status = INIT_FAILURE codes then
        [LoggingError ''Gold initialization failed with output %s'' [py_of_str error]]
      else if status = COMPARISON_FAILURE_REMOTE codes then
        (if \<not> truthy_str (snd (GetTriageLinks session image_name)) then
           [LoggingError ''Failed to get triage link for %s, raw output: %s''
              [PyStr image_name, py_of_str error],
            LoggingError ''Reason for no triage link: %s''
              [py_of_str (GetTriageLinkOmissionReason session image_name)]]
         else
           [CreateLink (if IsTryjobRun props then ''triage_link_for_entire_cl''
                        else ''gold_triage_link'')
              (the (snd (GetTriageLinks session image_name)))])
      else if status = COMPARISON_FAILURE_LOCAL codes then
        [LoggingError ''Local comparison failed. Local diff files:'' [],
         LoggingError ''Generated image: %s''
           [PyStr (py_or (GetGivenImageLink session image_name) ''Unable to retrieve link'')],
         LoggingError ''Closest image: %s''
           [PyStr (py_or (GetClosestImageLink session image_name) ''Unable to retrieve link'')],
         LoggingError ''Diff image: %s''
           [PyStr (py_or (GetDiffImageLink session image_name) ''Unable to retrieve link'')]]
      else if status = LOCAL_DIFF_FAILURE codes then
        [LoggingError
           ''Local comparison failed and an error occurred during diff generation: %s''
           [py_of_str error],
         LoggingError ''Local diff files:'' [],
         LoggingError ''Generated image: %s''
           [PyStr (py_or (GetGivenImageLink session image_name) ''Unable to retrieve link'')],
         LoggingError ''Closest image: %s''
           [PyStr (py_or (GetClosestImageLink session image_name) ''Unable to retrieve link'')],
         LoggingError ''Diff image: %s''
           [PyStr (py_or (GetDiffImageLink session image_name) ''Unable to retrieve link'')]]
      else
        [LoggingError ''Given unhandled SkiaGoldSession StatusCode %s with error %s''
           [PyInt status, py_of_str error]])"
  assumes "GetGoldJsonKeys c br today pg = (Inr gpu_keys, c1)"
    and "RunComparison session image_name png_temp_file (matching_algorithm_GetCmdline pg)
           (\<not> (local_pixel_tests props \<or> no_luci_auth props)) = (status, error)"
    and "status \<noteq> 0"
  shows "diagnostics \<noteq> [] \<and>
         (\<forall>parsed_options.
            UploadTestResultToSkiaGold_steps c br today parsed_options manager props
              image_name png_temp_file pg =
              (if ShouldReportGoldFailure parsed_options today pg then Inl failure
               else Inr (),
               map Emit diagnostics
               @ Consult (ShouldReportGoldFailure parsed_options today pg)
               # (if ShouldReportGoldFailure parsed_options today pg then [Raise failure]
                  else []),
               c1) \<and>
            UploadTestResultToSkiaGold c br today parsed_options manager props
              image_name png_temp_file pg =
              (if ShouldReportGoldFailure parsed_options today pg then Inl failure
               else Inr (),
               diagnostics, c1))"
proof -
  have flat: "diagnostics = dispatch_status codes session props image_name status error"
    unfolding diagnostics_def by (rule dispatch_status_flat [symmetric])
  have nonempty: "diagnostics \<noteq> []"
    unfolding flat by (rule dispatch_status_not_Nil)
  note hyps = assms(5-7) [unfolded session_def]
  have steps: "UploadTestResultToSkiaGold_steps c br today parsed_options manager props
              image_name png_temp_file pg =
              (if ShouldReportGoldFailure parsed_options today pg then Inl failure
               else Inr (),
               map Emit diagnostics
               @ Consult (ShouldReportGoldFailure parsed_options today pg)
               # (if ShouldReportGoldFailure parsed_options today pg then [Raise failure]
                  else []),
               c1)" for parsed_options
    unfolding flat failure_def codes_def session_def by (rule Upload_steps_nonpass [OF hyps])
  have events: "UploadTestResultToSkiaGold c br today parsed_options manager props
              image_name png_temp_file pg =
              (if ShouldReportGoldFailure parsed_options today pg then Inl failure
               else Inr (),
               diagnostics, c1)" for parsed_options
    unfolding flat failure_def codes_def session_def by (rule Upload_nonpass [OF hyps])
  from nonempty steps events show ?thesis by blast
qed

text \<open>An authentication failure, reported with the option \<open>no_skia_gold_failure\<close> unset
  and suppressed with the option set, and a local mismatch with no image link
  retrievable.\<close>

theorem diagnostics_before_failure_witness:
  "UploadTestResultToSkiaGold_steps fresh_cls (example_browser intel_device) 100
     \<lparr>no_skia_gold_failure = False\<rparr> (example_manager 1 None) (example_props False)
     ''pixel_test'' ''/tmp/pixel_test.png'' (example_page False (Some 99))
   = (Inl (Exception ''goldctl command failed, see above for details''),
      [Emit (LoggingError ''Gold authentication failed with output %s''
               [PyStr ''goldctl output'']),
       Consult True,
       Raise (Exception ''goldctl command failed, see above for details'')],
      \<lparr>image_parameters = Some (intel_params\<lparr>driver_version := Some ''2.1.0''\<rparr>)\<rparr>) \<and>
   UploadTestResultToSkiaGold_steps fresh_cls (example_browser intel_device) 100
     \<lparr>no_skia_gold_failure = True\<rparr> (example_manager 1 None) (example_props False)
     ''pixel_test'' ''/tmp/pixel_test.png'' (example_page False (Some 99))
   = (Inr (),
      [Emit (LoggingError ''Gold authentication failed with output %s''
               [PyStr ''goldctl output'']),
       Consult False],
      \<lparr>image_parameters = Some (intel_params\<lparr>driver_version := Some ''2.1.0''\<rparr>)\<rparr>) \<and>
   UploadTestResultToSkiaGold_steps fresh_cls (example_browser intel_device) 100
     \<lparr>no_skia_gold_failure = False\<rparr> (example_manager 4 None) (example_props False)
     ''pixel_test'' ''/tmp/pixel_test.png'' (example_page False (Some 99))
   = (Inl (Exception ''goldctl command failed, see above for details''),
      [Emit (LoggingError ''Local comparison failed. Local diff files:'' []),
       Emit (LoggingError ''Generated image: %s'' [PyStr ''Unable to retrieve link'']),
       Emit (LoggingError ''Closest image: %s'' [PyStr ''Unable to retrieve link'']),
       Emit (LoggingError ''Diff image: %s'' [PyStr ''Unable to retrieve link'']),
       Consult True,
       Raise (Exception ''goldctl command failed, see above for details'')],
      \<lparr>image_parameters = Some (intel_params\<lparr>driver_version := Some ''2.1.0''\<rparr>)\<rparr>) \<and>
   UploadTestResultToSkiaGold fresh_cls (example_browser intel_device) 100
     \<lparr>no_skia_gold_failure = True\<rparr> (example_manager 1 None) (example_props False)
     ''pixel_test'' ''/tmp/pixel_test.png'' (example_page False (Some 99))
   = (Inr (),
      [LoggingError ''Gold authentication failed with output %s'' [PyStr ''goldctl output'']],
      \<lparr>image_parameters = Some (intel_params\<lparr>driver_version := Some ''2.1.0''\<rparr>)\<rparr>)"
proof -
  have report: "ShouldReportGoldFailure \<lparr>no_skia_gold_failure = False\<rparr> 100
                  (example_page False (Some 99))"
    "\<not> ShouldReportGoldFailure \<lparr>no_skia_gold_failure = True\<rparr> 100
         (example_page False (Some 99))"
    by (simp_all add: ShouldReportGoldFailure_def GracePeriodActive_def example_page_def)
  have c: "\<lparr>image_parameters = Some
             \<lparr>vendor_id = Some 0x8086, device_id = Some 0x5912,
              vendor_string = None, device_string = None, msaa = True,
              model_name = Some [], driver_version = Some ''2.1.0'',
              driver_vendor = Some ''Google Inc. (ANGLE)''\<rparr>\<rparr>
           = \<lparr>image_parameters = Some (intel_params\<lparr>driver_version := Some ''2.1.0''\<rparr>)\<rparr>"
    by (simp add: intel_params_def)
  have nonzero: "(1::int) \<noteq> 0" "(4::int) \<noteq> 0" by simp_all
  {
    fix status :: int
    assume nz: "status \<noteq> 0"
    note run = example_run [where status = status and link = None and tryjob = False
        and image_name = "''pixel_test''" and png_temp_file = "''/tmp/pixel_test.png''"
        and pg = "example_page False (Some 99)"]
    note diagnostics_before_failure [OF intel_keys run nz,
        unfolded example_session_answers c, THEN conjunct2]
  }
  note T = this
  from T [OF nonzero(1), THEN spec, of "\<lparr>no_skia_gold_failure = False\<rparr>"]
    T [OF nonzero(1), THEN spec, of "\<lparr>no_skia_gold_failure = True\<rparr>"]
    T [OF nonzero(2), THEN spec, of "\<lparr>no_skia_gold_failure = False\<rparr>"]
    report
  show ?thesis
    by (simp add: example_codes_def py_of_str_def py_or_def)
qed

section \<open>The triage link of a remote mismatch\<close>

text \<open>
  Claim C7. When the status is \<open>COMPARISON_FAILURE_REMOTE\<close> (and is not false and does not
  equal the two codes tested before it), the dispatcher asks the session for the triage
  links and keeps the second. When that link is \<open>None\<close> or empty, two errors are logged,
  the second with the omission reason, and no link artifact is created. Otherwise exactly
  one link artifact is created and nothing is logged: it is named
  \<open>triage_link_for_entire_cl\<close> in a tryjob run and \<open>gold_triage_link\<close> otherwise.
\<close>

theorem remote_mismatch_triage_link:
  fixes manager :: session_manager
  defines "session \<equiv> \<lambda>gpu_keys. GetSkiaGoldSession manager gpu_keys SKIA_GOLD_CORPUS"
  assumes "GetGoldJsonKeys c br today pg = (Inr gpu_keys, c1)"
    and "RunComparison (session gpu_keys) image_name
           png_temp_file (matching_algorithm_GetCmdline pg)
           (\<not> (local_pixel_tests props \<or> no_luci_auth props)) = (status, error)"
    and "status \<noteq> 0"
    and "status \<noteq> AUTH_FAILURE (StatusCodes manager)"
    and "status \<noteq> INIT_FAILURE (StatusCodes manager)"
    and "status = COMPARISON_FAILURE_REMOTE (StatusCodes manager)"
  shows "if \<not> truthy_str (snd (GetTriageLinks (session gpu_keys) image_name)) then
           fst (snd (UploadTestResultToSkiaGold c br today parsed_options manager props
                       image_name png_temp_file pg))
             = [LoggingError ''Failed to get triage link for %s, raw output: %s''
                  [PyStr image_name, py_of_str error],
                LoggingError ''Reason for no triage link: %s''
                  [py_of_str (GetTriageLinkOmissionReason (session gpu_keys) image_name)]] \<and>
           artifact_links
             (fst (snd (UploadTestResultToSkiaGold c br today parsed_options manager props
                          image_name png_temp_file pg))) = []
         else
           fst (snd (UploadTestResultToSkiaGold c br today parsed_options manager props
                       image_name png_temp_file pg))
             = [CreateLink (if IsTryjobRun props then ''triage_link_for_entire_cl''
                            else ''gold_triage_link'')
                  (the (snd (GetTriageLinks (session gpu_keys) image_name)))] \<and>
           artifact_links
             (fst (snd (UploadTestResultToSkiaGold c br today parsed_options manager props
                          image_name png_temp_file pg)))
             = [(if IsTryjobRun props then ''triage_link_for_entire_cl''
                 else ''gold_triage_link'',
                 the (snd (GetTriageLinks (session gpu_keys) image_name)))]"
proof -
  from assms(2,3,4) have
    "fst (snd (UploadTestResultToSkiaGold c br today parsed_options manager props
                 image_name png_temp_file pg))
     = dispatch_status (StatusCodes manager) (session gpu_keys) props image_name status error"
    unfolding session_def by (simp add: Upload_nonpass)
  moreover from assms(5-7) have
    "dispatch_status (StatusCodes manager) (session gpu_keys) props image_name status error
     = (let no_triage_link =
               [LoggingError ''Failed to get triage link for %s, raw output: %s''
                  [PyStr image_name, py_of_str error],
                LoggingError ''Reason for no triage link: %s''
                  [py_of_str (GetTriageLinkOmissionReason (session gpu_keys) image_name)]]
         in (case snd (GetTriageLinks (session gpu_keys) image_name) of
               None \<Rightarrow> no_triage_link
             | Some triage_link \<Rightarrow>
                 if triage_link = [] then no_triage_link
                 else if IsTryjobRun props then
                   [CreateLink ''triage_link_for_entire_cl'' triage_link]
                 else
                   [CreateLink ''gold_triage_link'' triage_link]))"
    by (simp add: dispatch_status_def)
  ultimately have emitted:
    "fst (snd (UploadTestResultToSkiaGold c br today parsed_options manager props
                 image_name png_temp_file pg))
     = (case snd (GetTriageLinks (session gpu_keys) image_name) of
          None \<Rightarrow>
            [LoggingError ''Failed to get triage link for %s, raw output: %s''
               [PyStr image_name, py_of_str error],
             LoggingError ''Reason for no triage link: %s''
               [py_of_str (GetTriageLinkOmissionReason (session gpu_keys) image_name)]]
        | Some triage_link \<Rightarrow>
            if triage_link = [] then
              [LoggingError ''Failed to get triage link for %s, raw output: %s''
                 [PyStr image_name, py_of_str error],
               LoggingError ''Reason for no triage link: %s''
                 [py_of_str (GetTriageLinkOmissionReason (session gpu_keys) image_name)]]
            else [CreateLink (if IsTryjobRun props then ''triage_link_for_entire_cl''
                              else ''gold_triage_link'') triage_link])"
    by (simp only: Let_def if_distrib [of "\<lambda>name. [CreateLink name _]"] list.simps
          cong: option.case_cong if_cong)
  show ?thesis
  proof (cases "snd (GetTriageLinks (session gpu_keys) image_name)")
    case None
    with emitted show ?thesis by (simp add: truthy_str_def)
  next
    case (Some triage_link)
    with emitted show ?thesis by (cases "triage_link = []") (simp_all add: truthy_str_def)
  qed
qed

text \<open>A remote mismatch with no triage link, and with a link in a tryjob run and in a
  run that is not a tryjob.\<close>

theorem remote_mismatch_triage_link_witness:
  "fst (snd (UploadTestResultToSkiaGold fresh_cls (example_browser intel_device) 100
               \<lparr>no_skia_gold_failure = False\<rparr> (example_manager 3 None) (example_props True)
               ''pixel_test'' ''/tmp/pixel_test.png'' (example_page False (Some 99))))
     = [LoggingError ''Failed to get triage link for %s, raw output: %s''
          [PyStr ''pixel_test'', PyStr ''goldctl output''],
        LoggingError ''Reason for no triage link: %s''
          [PyStr ''Gold could not provide a link'']] \<and>
   artifact_links
     (fst (snd (UploadTestResultToSkiaGold fresh_cls (example_browser intel_device) 100
                  \<lparr>no_skia_gold_failure = False\<rparr> (example_manager 3 None)
                  (example_props True) ''pixel_test'' ''/tmp/pixel_test.png''
                  (example_page False (Some 99))))) = [] \<and>
   artifact_links
     (fst (snd (UploadTestResultToSkiaGold fresh_cls (example_browser intel_device) 100
                  \<lparr>no_skia_gold_failure = False\<rparr>
                  (example_manager 3 (Some ''https://gold.example/cl/1''))
                  (example_props True) ''pixel_test'' ''/tmp/pixel_test.png''
                  (example_page False (Some 99)))))
     = [(''triage_link_for_entire_cl'', ''https://gold.example/cl/1'')] \<and>
   artifact_links
     (fst (snd (UploadTestResultToSkiaGold fresh_cls (example_browser intel_device) 100
                  \<lparr>no_skia_gold_failure = False\<rparr>
                  (example_manager 3 (Some ''https://gold.example/cl/1''))
                  (example_props False) ''pixel_test'' ''/tmp/pixel_test.png''
                  (example_page False (Some 99)))))
     = [(''gold_triage_link'', ''https://gold.example/cl/1'')]"
proof -
  let ?url = "''https://gold.example/cl/1''"
  {
    fix link tryjob
    note run = example_run [where status = 3 and link = link and tryjob = tryjob
        and image_name = "''pixel_test''" and png_temp_file = "''/tmp/pixel_test.png''"
        and pg = "example_page False (Some 99)"]
    note remote_mismatch_triage_link
        [OF intel_keys run example_codes_remote(1) example_codes_remote(2-4) [where link = link],
         where parsed_options = "\<lparr>no_skia_gold_failure = False\<rparr>",
         unfolded example_triage_link]
  }
  note T = this
  have none: "\<not> truthy_str None" and link: "truthy_str (Some ?url)"
    by (simp_all add: truthy_str_def)
  from T [of None True] none
  have a: "fst (snd (UploadTestResultToSkiaGold fresh_cls (example_browser intel_device) 100
               \<lparr>no_skia_gold_failure = False\<rparr> (example_manager 3 None) (example_props True)
               ''pixel_test'' ''/tmp/pixel_test.png'' (example_page False (Some 99))))
     = [LoggingError ''Failed to get triage link for %s, raw output: %s''
          [PyStr ''pixel_test'', PyStr ''goldctl output''],
        LoggingError ''Reason for no triage link: %s''
          [PyStr ''Gold could not provide a link'']] \<and>
   artifact_links
     (fst (snd (UploadTestResultToSkiaGold fresh_cls (example_browser intel_device) 100
                  \<lparr>no_skia_gold_failure = False\<rparr> (example_manager 3 None)
                  (example_props True) ''pixel_test'' ''/tmp/pixel_test.png''
                  (example_page False (Some 99))))) = []"
    by (simp add: py_of_str_def)
  from T [of "Some ?url" True] link
  have b: "artifact_links
     (fst (snd (UploadTestResultToSkiaGold fresh_cls (example_browser intel_device) 100
                  \<lparr>no_skia_gold_failure = False\<rparr> (example_manager 3 (Some ?url))
                  (example_props True) ''pixel_test'' ''/tmp/pixel_test.png''
                  (example_page False (Some 99)))))
     = [(''triage_link_for_entire_cl'', ?url)]"
    by simp
  from T [of "Some ?url" False] link
  have c: "artifact_links
     (fst (snd (UploadTestResultToSkiaGold fresh_cls (example_browser intel_device) 100
                  \<lparr>no_skia_gold_failure = False\<rparr> (example_manager 3 (Some ?url))
                  (example_props False) ''pixel_test'' ''/tmp/pixel_test.png''
                  (example_page False (Some 99)))))
     = [(''gold_triage_link'', ?url)]"
    by simp
  from a b c show ?thesis by blast
qed

section \<open>The ignore marker\<close>

text \<open>
  Claim C8. Whenever \<open>GetGoldJsonKeys\<close> returns a key set, the key set has the key
  \<open>'ignore'\<close>, with the value \<open>'1'\<close>, exactly when the grace period of the test is active
  at that time; with no active grace period the key is not there.
\<close>

theorem ignore_marker_iff_grace_period:
  assumes "GetGoldJsonKeys c br today pg = (Inr keys, c')"
  shows "map_of keys ''ignore'' = (if GracePeriodActive today pg then Some ''1'' else None) \<and>
         ((''ignore'', ''1'') \<in> set keys) = GracePeriodActive today pg \<and>
         (''ignore'' \<in> fst ` set keys) = GracePeriodActive today pg"
proof -
  from GetGoldJsonKeys_InrD [OF assms] obtain img_params where
    keys: "keys = gpu_keys_literal img_params br @
                  (if GracePeriodActive today pg then [(''ignore'', ''1'')] else [])"
    by blast
  have "map_of keys ''ignore'' = (if GracePeriodActive today pg then Some ''1'' else None)"
    by (simp add: keys map_add_def map_of_ignore_literal)
  moreover have "((''ignore'', ''1'') \<in> set keys) = GracePeriodActive today pg"
    by (simp add: keys ignore_not_in_literal)
  moreover have "(''ignore'' \<in> fst ` set keys) = GracePeriodActive today pg"
    using ignore_not_in_literal [of _ img_params br] by (auto simp: keys)
  ultimately show ?thesis by blast
qed

theorem ignore_marker_iff_grace_period_witness:
  "GracePeriodActive 100 (example_page False (Some 100)) \<and>
   (\<exists>keys c'. GetGoldJsonKeys fresh_cls (example_browser adreno_device) 100
                 (example_page False (Some 100)) = (Inr keys, c') \<and>
       map_of keys ''ignore'' = Some ''1'') \<and>
   \<not> GracePeriodActive 100 (example_page False (Some 99)) \<and>
   (\<exists>keys c'. GetGoldJsonKeys fresh_cls (example_browser intel_device) 100
                 (example_page False (Some 99)) = (Inr keys, c') \<and>
       map_of keys ''ignore'' = None)"
proof -
  have g: "GracePeriodActive 100 (example_page False (Some 100))"
    "\<not> GracePeriodActive 100 (example_page False (Some 99))"
    by (simp_all add: GracePeriodActive_def example_page_def)
  from ignore_marker_iff_grace_period [OF adreno_keys] g(1) adreno_keys
  have a: "\<exists>keys c'. GetGoldJsonKeys fresh_cls (example_browser adreno_device) 100
                 (example_page False (Some 100)) = (Inr keys, c') \<and>
       map_of keys ''ignore'' = Some ''1''"
    by auto
  from ignore_marker_iff_grace_period [OF intel_keys] g(2) intel_keys
  have b: "\<exists>keys c'. GetGoldJsonKeys fresh_cls (example_browser intel_device) 100
                 (example_page False (Some 99)) = (Inr keys, c') \<and>
       map_of keys ''ignore'' = None"
    by auto
  from g a b show ?thesis by blast
qed

section \<open>The values of the key set\<close>

text \<open>
  Claim C9. Whenever \<open>GetGoldJsonKeys\<close> returns a key set, every value in it is a
  non-empty string. The ids are rendered from the cached image parameters as \<open>'None'\<close>
  when absent and as \<open>hex\<close> prints them otherwise, which is a lowercase hexadecimal
  literal whose digits denote the magnitude of the id. Every other field is rendered by
  \<open>_ToNonEmptyStrOrNone\<close>, which gives \<open>'None'\<close> for \<open>None\<close> and for the empty string and the
  string itself otherwise; \<open>msaa\<close> is \<open>'True'\<close> or \<open>'False'\<close>. That no value is anything
  but a string is the type of the key set.
\<close>

theorem gold_keys_values:
  assumes "GetGoldJsonKeys c br today pg = (Inr keys, c')"
  shows
    "(\<forall>(k, v) \<in> set keys. v \<noteq> []) \<and>
     (\<exists>img_params. image_parameters c' = Some img_params \<and>
        map_of keys ''vendor_id''
          = Some (case vendor_id img_params of None \<Rightarrow> ''None'' | Some n \<Rightarrow> hex n) \<and>
        map_of keys ''device_id''
          = Some (case device_id img_params of None \<Rightarrow> ''None'' | Some n \<Rightarrow> hex n) \<and>
        map_of keys ''vendor_string'' = Some (ToNonEmptyStrOrNone (vendor_string img_params)) \<and>
        map_of keys ''device_string'' = Some (ToNonEmptyStrOrNone (device_string img_params)) \<and>
        map_of keys ''msaa'' = Some (if msaa img_params then ''True'' else ''False'') \<and>
        map_of keys ''model_name'' = Some (ToNonEmptyStrOrNone (model_name img_params)) \<and>
        map_of keys ''os'' = Some (ToNonEmptyStrOrNone (GetOSName (platform br))) \<and>
        map_of keys ''os_version''
          = Some (ToNonEmptyStrOrNone (GetOSVersionName (platform br))) \<and>
        map_of keys ''os_version_detail_string''
          = Some (ToNonEmptyStrOrNone (GetOSVersionDetailString (platform br))) \<and>
        map_of keys ''driver_version''
          = Some (ToNonEmptyStrOrNone (driver_version img_params)) \<and>
        map_of keys ''driver_vendor''
          = Some (ToNonEmptyStrOrNone (driver_vendor img_params))) \<and>
     (\<forall>val. ToNonEmptyStrOrNone val
              = (if val = None \<or> val = Some [] then ''None'' else the val)) \<and>
     (\<forall>n. lower_hex_literal (hex n) \<and>
          hex n = (if n < 0 then ''-0x'' else ''0x'') @ hex_digits (nat \<bar>n\<bar>) \<and>
          hex_val (hex_digits (nat \<bar>n\<bar>)) = nat \<bar>n\<bar>)"
proof -
  from GetGoldJsonKeys_InrD [OF assms] obtain c1 img_params where
    c': "c' = c1\<lparr>image_parameters := Some img_params\<rparr>" and
    keys: "keys = gpu_keys_literal img_params br @
                  (if GracePeriodActive today pg then [(''ignore'', ''1'')] else [])"
    by blast
  have nonempty: "\<forall>(k, v) \<in> set keys. v \<noteq> []"
    using literal_values_not_Nil [of _ img_params br] by (auto simp: keys)
  have cached: "image_parameters c' = Some img_params"
    by (simp add: c')
  have rendered:
    "map_of keys ''vendor_id''
       = Some (case vendor_id img_params of None \<Rightarrow> ''None'' | Some n \<Rightarrow> hex n)"
    "map_of keys ''device_id''
       = Some (case device_id img_params of None \<Rightarrow> ''None'' | Some n \<Rightarrow> hex n)"
    "map_of keys ''vendor_string'' = Some (ToNonEmptyStrOrNone (vendor_string img_params))"
    "map_of keys ''device_string'' = Some (ToNonEmptyStrOrNone (device_string img_params))"
    "map_of keys ''msaa'' = Some (if msaa img_params then ''True'' else ''False'')"
    "map_of keys ''model_name'' = Some (ToNonEmptyStrOrNone (model_name img_params))"
    "map_of keys ''os'' = Some (ToNonEmptyStrOrNone (GetOSName (platform br)))"
    "map_of keys ''os_version'' = Some (ToNonEmptyStrOrNone (GetOSVersionName (platform br)))"
    "map_of keys ''os_version_detail_string''
       = Some (ToNonEmptyStrOrNone (GetOSVersionDetailString (platform br)))"
    "map_of keys ''driver_version'' = Some (ToNonEmptyStrOrNone (driver_version img_params))"
    "map_of keys ''driver_vendor'' = Some (ToNonEmptyStrOrNone (driver_vendor img_params))"
    unfolding keys map_of_literal
    by (simp_all add: ToHexOrNone_def ToHex_def str_bool_def split: option.splits)
  have strings: "\<forall>val. ToNonEmptyStrOrNone val
                   = (if val = None \<or> val = Some [] then ''None'' else the val)"
    by (simp add: ToNonEmptyStrOrNone_cases)
  have hexes: "\<forall>n. lower_hex_literal (hex n) \<and>
          hex n = (if n < 0 then ''-0x'' else ''0x'') @ hex_digits (nat \<bar>n\<bar>) \<and>
          hex_val (hex_digits (nat \<bar>n\<bar>)) = nat \<bar>n\<bar>"
    using lower_hex_literal_hex hex_digits_of_hex hex_val_hex_digits by blast
  from nonempty cached rendered strings hexes show ?thesis by blast
qed


text \<open>The key set of the Intel example: ids \<open>0x8086\<close> and \<open>0x5912\<close>, an empty model name
  and an absent OS version detail string rendered as \<open>'None'\<close>.\<close>

theorem gold_keys_values_witness:
  "\<exists>keys c'.
     GetGoldJsonKeys fresh_cls (example_browser intel_device) 100
       (example_page False (Some 99)) = (Inr keys, c') \<and>
     list_all (\<lambda>(k, v). v \<noteq> []) keys \<and>
     map_of keys ''vendor_id'' = Some ''0x8086'' \<and>
     map_of keys ''device_id'' = Some ''0x5912'' \<and>
     map_of keys ''vendor_string'' = Some ''None'' \<and>
     map_of keys ''model_name'' = Some ''None'' \<and>
     map_of keys ''os_version_detail_string'' = Some ''None'' \<and>
     map_of keys ''msaa'' = Some ''True'' \<and>
     lower_hex_literal ''0x8086''"
proof -
  have hex_ids: "hex 32902 = ''0x8086''" "hex 22802 = ''0x5912''"
    by (simp_all add: hex_def hex_digits.simps hex_digit_def)
  obtain keys c' where
    k: "GetGoldJsonKeys fresh_cls (example_browser intel_device) 100
          (example_page False (Some 99)) = (Inr keys, c')"
    and c': "c' = \<lparr>image_parameters = Some
         \<lparr>vendor_id = Some 0x8086, device_id = Some 0x5912,
          vendor_string = None, device_string = None, msaa = True,
          model_name = Some [], driver_version = Some ''2.1.0'',
          driver_vendor = Some ''Google Inc. (ANGLE)''\<rparr>\<rparr>"
    using intel_keys by blast
  have os: "GetOSVersionDetailString (platform (example_browser intel_device)) = None"
    by (simp add: example_browser_def)
  note T = gold_keys_values [OF k]
  from T have "list_all (\<lambda>(k, v). v \<noteq> []) keys"
    by (simp add: list_all_iff)
  moreover from T c' hex_ids os
  have "map_of keys ''vendor_id'' = Some ''0x8086''"
    "map_of keys ''device_id'' = Some ''0x5912''"
    "map_of keys ''vendor_string'' = Some ''None''"
    "map_of keys ''model_name'' = Some ''None''"
    "map_of keys ''os_version_detail_string'' = Some ''None''"
    "map_of keys ''msaa'' = Some ''True''"
    by auto
  moreover from T hex_ids have "lower_hex_literal ''0x8086''"
    by metis
  ultimately show ?thesis using k by blast
qed

section \<open>A reported id of zero counts as absent\<close>

text \<open>
  Claim C10. A first device that reports a vendor id or a device id equal to \<open>0\<close> does not
  take the id branch of \<open>_ComputeGpuInfo\<close>: the test \<open>device.vendor_id and device.device_id\<close>
  is false for \<open>0\<close> as it is for \<open>None\<close>. The string branch, the sentinel branch or the
  exception follows, in that order, so the stored ids are both \<open>None\<close> or both 65535, and
  a key set built from this computation has \<open>'None'\<close> or \<open>'0xffff'\<close> for both ids, never
  \<open>'0x0'\<close>.
\<close>

theorem zero_id_treated_as_absent:
  assumes "image_parameters c = None" and "GetSystemInfo br = Some si" and "gpu si = Some g"
    and "devices g = dev # rest"
    and "device.vendor_id dev = Some 0 \<or> device.device_id dev = Some 0"
  shows
    "(if truthy_str (device.vendor_string dev) \<and> truthy_str (device.device_string dev) then
        \<exists>P. ComputeGpuInfo c br pg = (Inr (), c\<lparr>image_parameters := Some P\<rparr>) \<and>
            vendor_id P = None \<and> device_id P = None \<and>
            vendor_string P = device.vendor_string dev \<and>
            device_string P = device.device_string dev
      else if gpu_process_disabled pg then
        \<exists>P. ComputeGpuInfo c br pg = (Inr (), c\<lparr>image_parameters := Some P\<rparr>) \<and>
            vendor_id P = Some 65535 \<and> device_id P = Some 65535
      else
        fst (ComputeGpuInfo c br pg) = Inl (Exception ''GPU device information was incomplete''))
     \<and>
     (\<forall>today keys c'. GetGoldJsonKeys c br today pg = (Inr keys, c') \<longrightarrow>
        (map_of keys ''vendor_id'' = Some ''None'' \<and> map_of keys ''device_id'' = Some ''None'' \<or>
         map_of keys ''vendor_id'' = Some ''0xffff'' \<and> map_of keys ''device_id'' = Some ''0xffff'')
        \<and> map_of keys ''vendor_id'' \<noteq> Some ''0x0'' \<and> map_of keys ''device_id'' \<noteq> Some ''0x0'')"
proof -
  from assms(5) have not_ids:
    "\<not> (truthy_int (device.vendor_id dev) \<and> truthy_int (device.device_id dev))"
    by (auto simp: truthy_int_def)
  note fresh = ComputeGpuInfo_fresh [OF assms(1-4), of pg]
  note keys = GetGoldJsonKeys_after_compute [OF assms(1)]
  consider
    (strings) "truthy_str (device.vendor_string dev) \<and> truthy_str (device.device_string dev)"
  | (sentinel) "\<not> (truthy_str (device.vendor_string dev) \<and> truthy_str (device.device_string dev))"
      "gpu_process_disabled pg"
  | (incomplete)
      "\<not> (truthy_str (device.vendor_string dev) \<and> truthy_str (device.device_string dev))"
      "\<not> gpu_process_disabled pg"
    by blast
  then show ?thesis
  proof cases
    case strings
    from fresh not_ids strings obtain P where
      P: "ComputeGpuInfo c br pg = (Inr (), c\<lparr>image_parameters := Some P\<rparr>)"
        "vendor_id P = None" "device_id P = None"
        "vendor_string P = device.vendor_string dev"
        "device_string P = device.device_string dev"
      by (simp add: Let_def new_ImageParameters_def)
    have "map_of keys ''vendor_id'' = Some ''None'' \<and> map_of keys ''device_id'' = Some ''None''"
      if "GetGoldJsonKeys c br today pg = (Inr keys, c')" for today keys c'
      using keys [OF P(1) that] map_of_identity_keys [of P _ keys br] P(2,3)
      by (auto simp: ToHexOrNone_def)
    with strings P show ?thesis by auto
  next
    case sentinel
    from fresh not_ids sentinel obtain P where
      P: "ComputeGpuInfo c br pg = (Inr (), c\<lparr>image_parameters := Some P\<rparr>)"
        "vendor_id P = Some 65535" "device_id P = Some 65535"
      by (simp add: Let_def new_ImageParameters_def)
    have "map_of keys ''vendor_id'' = Some ''0xffff'' \<and>
          map_of keys ''device_id'' = Some ''0xffff''"
      if "GetGoldJsonKeys c br today pg = (Inr keys, c')" for today keys c'
      using keys [OF P(1) that] map_of_identity_keys [of P _ keys br] P(2,3)
      by (auto simp: ToHexOrNone_def ToHex_def hex_65535)
    with sentinel P show ?thesis by auto
  next
    case incomplete
    with fresh not_ids have E: "ComputeGpuInfo c br pg =
         (Inl (Exception ''GPU device information was incomplete''),
          c\<lparr>image_parameters := Some new_ImageParameters\<rparr>)"
      by (simp add: Let_def)
    from GetGoldJsonKeys_compute_error [OF assms(1) E] E incomplete
    show ?thesis by simp
  qed
qed



text \<open>A device with zero ids and both strings, and a blank device with zero ids, with
  the GPU process disabled and enabled.\<close>

theorem zero_id_treated_as_absent_witness:
  "(\<exists>P. ComputeGpuInfo fresh_cls (example_browser adreno_device) (example_page False (Some 100))
          = (Inr (), fresh_cls\<lparr>image_parameters := Some P\<rparr>) \<and>
        vendor_id P = None \<and> device_id P = None \<and> vendor_string P = Some ''Qualcomm'') \<and>
   (\<exists>keys c'. GetGoldJsonKeys fresh_cls (example_browser adreno_device) 100
                 (example_page False (Some 100)) = (Inr keys, c') \<and>
       map_of keys ''vendor_id'' \<noteq> Some ''0x0'' \<and> map_of keys ''device_id'' \<noteq> Some ''0x0'') \<and>
   (\<exists>P. ComputeGpuInfo fresh_cls (example_browser blank_device) (example_page True None)
          = (Inr (), fresh_cls\<lparr>image_parameters := Some P\<rparr>) \<and>
        vendor_id P = Some 65535 \<and> device_id P = Some 65535) \<and>
   fst (ComputeGpuInfo fresh_cls (example_browser blank_device) (example_page False None))
     = Inl (Exception ''GPU device information was incomplete'')"
proof -
  note T = zero_id_treated_as_absent [OF example_browser_parts]
  have z: "device.vendor_id adreno_device = Some 0 \<or> device.device_id adreno_device = Some 0"
    "device.vendor_id blank_device = Some 0 \<or> device.device_id blank_device = Some 0"
    by (simp_all add: adreno_device_def blank_device_def)
  have sel:
    "truthy_str (device.vendor_string adreno_device)"
    "truthy_str (device.device_string adreno_device)"
    "device.vendor_string adreno_device = Some ''Qualcomm''"
    "\<not> truthy_str (device.vendor_string blank_device)"
    "gpu_process_disabled (example_page True None)"
    "\<not> gpu_process_disabled (example_page False None)"
    by (simp_all add: adreno_device_def blank_device_def truthy_str_def example_page_def)
  note A = T [OF z(1), of "example_page False (Some 100)"]
  from A have a: "\<exists>P. ComputeGpuInfo fresh_cls (example_browser adreno_device)
                         (example_page False (Some 100))
          = (Inr (), fresh_cls\<lparr>image_parameters := Some P\<rparr>) \<and>
        vendor_id P = None \<and> device_id P = None \<and> vendor_string P = Some ''Qualcomm''"
    using sel(1-3) by auto
  from A have "\<And>today keys c'.
          GetGoldJsonKeys fresh_cls (example_browser adreno_device) today
            (example_page False (Some 100)) = (Inr keys, c') \<Longrightarrow>
          map_of keys ''vendor_id'' \<noteq> Some ''0x0'' \<and> map_of keys ''device_id'' \<noteq> Some ''0x0''"
    by blast
  from this [OF adreno_keys] adreno_keys have b: "\<exists>keys c'.
      GetGoldJsonKeys fresh_cls (example_browser adreno_device) 100
        (example_page False (Some 100)) = (Inr keys, c') \<and>
      map_of keys ''vendor_id'' \<noteq> Some ''0x0'' \<and> map_of keys ''device_id'' \<noteq> Some ''0x0''"
    by blast
  from T [OF z(2), of "example_page True None"]
  have c: "\<exists>P. ComputeGpuInfo fresh_cls (example_browser blank_device) (example_page True None)
          = (Inr (), fresh_cls\<lparr>image_parameters := Some P\<rparr>) \<and>
        vendor_id P = Some 65535 \<and> device_id P = Some 65535"
    using sel(4,5) by auto
  from T [OF z(2), of "example_page False None"]
  have d: "fst (ComputeGpuInfo fresh_cls (example_browser blank_device)
                 (example_page False None))
             = Inl (Exception ''GPU device information was incomplete'')"
    using sel(4,6) by auto
  from a b c d show ?thesis by blast
qed

end
